theory Spec2Isabelle
  imports Complex_Main "HOL-Library.Monad_Syntax" "HOL-Library.Sublist" "HOL-Library.AList"
    "HOL-Library.Multiset"
begin

section \<open>JavaScript values\<close>

text \<open>
  A JavaScript number is a double: not-a-number, one of the two infinities, or a finite
  value, which is a rational. Rounding of decimal text to the nearest double is not
  modelled and \<open>-0\<close> is identified with \<open>0\<close>; nothing in \<^verbatim>\<open>src/index.ts\<close>
  depends on either.
\<close>

datatype number = NaN | PosInfinity | NegInfinity | Finite rat

text \<open>The relational operator \<^verbatim>\<open>a < b\<close> on numbers: false as soon as one side is NaN.\<close>

fun num_less :: "number \<Rightarrow> number \<Rightarrow> bool" where
  "num_less NaN _ = False"
| "num_less _ NaN = False"
| "num_less PosInfinity _ = False"
| "num_less _ NegInfinity = False"
| "num_less NegInfinity _ = True"
| "num_less _ PosInfinity = True"
| "num_less (Finite a) (Finite b) = (a < b)"

text \<open>\<^verbatim>\<open>Number.isInteger\<close>: finite and without fractional part.\<close>

fun isInteger :: "number \<Rightarrow> bool" where
  "isInteger (Finite q) = (frac q = 0)"
| "isInteger _ = False"

text \<open>\<^verbatim>\<open>isNaN\<close> applied to a number.\<close>

fun isNaN :: "number \<Rightarrow> bool" where
  "isNaN NaN = True"
| "isNaN _ = False"

text \<open>
  The values a tool call carries: JSON after \<^verbatim>\<open>JSON.parse\<close>. A number literal too
  large for a double parses to an infinity; NaN never comes out of JSON.
\<close>

datatype json =
    JNull
  | JBool bool
  | JNum number
  | JStr string
  | JArr "json list"
  | JObj "(string \<times> json) list"

text \<open>
  \<^verbatim>\<open>request.params.arguments\<close>: absent (\<open>None\<close>), or an object, read here through its
  property lookup; a property that is not there reads as \<^verbatim>\<open>undefined\<close> (\<open>None\<close>).
\<close>

type_synonym arguments = "(string \<rightharpoonup> json) option"

text \<open>
  Truthiness of a \<^verbatim>\<open>string | undefined\<close>, as \<^verbatim>\<open>filter(Boolean)\<close> and
  \<^verbatim>\<open>if (location)\<close> test it: \<^verbatim>\<open>undefined\<close> and the empty string are falsy.
\<close>

fun Boolean :: "string option \<Rightarrow> bool" where
  "Boolean None = False"
| "Boolean (Some s) = (s \<noteq> [])"

text \<open>\<^verbatim>\<open>a || b\<close> on such values.\<close>

definition or_else :: "string option \<Rightarrow> string option \<Rightarrow> string option" where
  "or_else a b = (if Boolean a then a else b)"

section \<open>Errors\<close>

datatype errno = ENOENT | EACCES | EEXIST | EISDIR | ENOTDIR | EIO

text \<open>
  Every \<^verbatim>\<open>throw\<close> of the program, by its origin. \<open>ZodError\<close> is what
  \<^verbatim>\<open>Schema.parse\<close> throws; \<open>SystemError\<close> is a rejection of an \<^verbatim>\<open>fs\<close> call,
  the only error that has a \<^verbatim>\<open>code\<close>.
\<close>

datatype error =
    ZodError
  | UnknownTool string
  | InvalidLatLng
  | FileExists string
  | ApiRequestFailed nat string
  | MetadataApiRequestFailed nat string
  | NetworkFailure string
  | UnexpectedError string
  | SystemError errno
  | SharpError

fun code :: "error \<Rightarrow> errno option" where
  "code (SystemError e) = Some e"
| "code _ = None"

text \<open>The taxonomy of the specification, read off the origin of the error.\<close>

datatype error_kind =
  ValidationError | ConflictError | UpstreamError | NetworkError | FilesystemError | OtherError

fun kind_of :: "error \<Rightarrow> error_kind" where
  "kind_of ZodError = ValidationError"
| "kind_of InvalidLatLng = ValidationError"
| "kind_of (FileExists _) = ConflictError"
| "kind_of (ApiRequestFailed _ _) = UpstreamError"
| "kind_of (MetadataApiRequestFailed _ _) = UpstreamError"
| "kind_of (NetworkFailure _) = NetworkError"
| "kind_of (SystemError _) = FilesystemError"
| "kind_of _ = OtherError"

section \<open>The zod schemas\<close>

text \<open>
  Each zod type is its parse function from the value found (\<open>None\<close> for
  \<^verbatim>\<open>undefined\<close>) to the parsed value, \<open>None\<close> when zod records an issue. The text of
  the issues is not modelled: \<^verbatim>\<open>parse\<close> throws as soon as there is one.
\<close>

text \<open>\<^verbatim>\<open>z.string()\<close>\<close>

fun z_string :: "json option \<Rightarrow> string option" where
  "z_string (Some (JStr s)) = Some s"
| "z_string _ = None"

text \<open>\<^verbatim>\<open>z.string().min(n)\<close>\<close>

definition z_string_min :: "nat \<Rightarrow> json option \<Rightarrow> string option" where
  "z_string_min n x = (case z_string x of
       Some s \<Rightarrow> if length s < n then None else Some s
     | None \<Rightarrow> None)"

text \<open>\<^verbatim>\<open>T.optional()\<close>: \<^verbatim>\<open>undefined\<close> is accepted as it is, anything else goes to \<open>T\<close>.\<close>

definition z_optional :: "(json option \<Rightarrow> 'a option) \<Rightarrow> json option \<Rightarrow> 'a option option" where
  "z_optional T x = (case x of None \<Rightarrow> Some None | Some j \<Rightarrow> map_option Some (T x))"

text \<open>
  \<^verbatim>\<open>T.optional().default(d)\<close>: \<^verbatim>\<open>undefined\<close> is replaced by \<open>d\<close> before the inner
  type sees it, so the optional below never meets \<^verbatim>\<open>undefined\<close> and \<open>T\<close> decides.
\<close>

definition z_optional_default :: "(json option \<Rightarrow> 'a option) \<Rightarrow> json \<Rightarrow> json option \<Rightarrow> 'a option" where
  "z_optional_default T d x = (case x of None \<Rightarrow> T (Some d) | Some j \<Rightarrow> T x)"

text \<open>
  \<^verbatim>\<open>z.number()\<close> with its checks. The type test refuses NaN; every check of the chain
  is then evaluated: \<^verbatim>\<open>int\<close> wants \<^verbatim>\<open>Number.isInteger\<close>, \<^verbatim>\<open>min(v)\<close> refuses
  \<^verbatim>\<open>data < v\<close>, \<^verbatim>\<open>max(v)\<close> refuses \<^verbatim>\<open>data > v\<close>.
\<close>

datatype number_check = IntCheck | MinCheck number | MaxCheck number

fun check_ok :: "number \<Rightarrow> number_check \<Rightarrow> bool" where
  "check_ok n IntCheck = isInteger n"
| "check_ok n (MinCheck v) = (\<not> num_less n v)"
| "check_ok n (MaxCheck v) = (\<not> num_less v n)"

fun z_number :: "number_check list \<Rightarrow> json option \<Rightarrow> number option" where
  "z_number checks (Some (JNum n)) =
     (if isNaN n then None else if list_all (check_ok n) checks then Some n else None)"
| "z_number checks _ = None"

text \<open>\<^verbatim>\<open>z.enum([...])\<close>\<close>

fun z_enum :: "string list \<Rightarrow> json option \<Rightarrow> string option" where
  "z_enum vs (Some (JStr s)) = (if s \<in> set vs then Some s else None)"
| "z_enum vs _ = None"

text \<open>\<^verbatim>\<open>z.array(z.string()).min(n)\<close>\<close>

fun z_string_elements :: "json list \<Rightarrow> string list option" where
  "z_string_elements [] = Some []"
| "z_string_elements (j # js) =
     (case (z_string (Some j), z_string_elements js) of
        (Some s, Some ss) \<Rightarrow> Some (s # ss)
      | _ \<Rightarrow> None)"

fun z_array_string_min :: "nat \<Rightarrow> json option \<Rightarrow> string list option" where
  "z_array_string_min n (Some (JArr js)) =
     (case z_string_elements js of
        Some ss \<Rightarrow> if length ss < n then None else Some ss
      | None \<Rightarrow> None)"
| "z_array_string_min n _ = None"

text \<open>
  The parsed arguments. \<^verbatim>\<open>GetMetadataSchema\<close> has the five fields of
  \<open>location_args\<close>; \<^verbatim>\<open>GetStreetViewSchema\<close> has five more. The field \<^verbatim>\<open>size\<close> is
  \<open>size_str\<close> here.
\<close>

record location_args =
  location :: "string option"
  lat_lng :: "string option"
  pano_id :: "string option"
  radius :: number
  source :: string

record street_view_args = location_args +
  filename :: string
  size_str :: string
  heading :: number
  pitch :: number
  fov :: number

record html_page_args =
  html_filename :: string
  title :: string
  html_elements :: "string list"

text \<open>
  The refinement both location schemas end with:
  \<^verbatim>\<open>[data.location, data.lat_lng, data.pano_id].filter(Boolean).length\<close>, which must be 1.
\<close>

definition locationMethods :: "'a location_args_scheme \<Rightarrow> nat" where
  "locationMethods data = length (filter Boolean [location data, lat_lng data, pano_id data])"

text \<open>The object of \<^verbatim>\<open>GetStreetViewSchema\<close>, before the refinement (lines 51 to 61).\<close>

definition GetStreetViewObject :: "arguments \<Rightarrow> street_view_args option" where
  "GetStreetViewObject args = (case args of
     None \<Rightarrow> None
   | Some data \<Rightarrow> do {
       v_filename \<leftarrow> z_string_min 1 (data ''filename'');
       v_location \<leftarrow> z_optional z_string (data ''location'');
       v_lat_lng \<leftarrow> z_optional z_string (data ''lat_lng'');
       v_pano_id \<leftarrow> z_optional z_string (data ''pano_id'');
       v_size \<leftarrow> z_optional_default z_string (JStr ''600x400'') (data ''size'');
       v_heading \<leftarrow> z_optional_default
          (z_number [IntCheck, MinCheck (Finite 0), MaxCheck (Finite 360)]) (JNum (Finite 0))
          (data ''heading'');
       v_pitch \<leftarrow> z_optional_default
          (z_number [IntCheck, MinCheck (Finite (- 90)), MaxCheck (Finite 90)]) (JNum (Finite 0))
          (data ''pitch'');
       v_fov \<leftarrow> z_optional_default
          (z_number [IntCheck, MinCheck (Finite 10), MaxCheck (Finite 120)]) (JNum (Finite 90))
          (data ''fov'');
       v_radius \<leftarrow> z_optional_default
          (z_number [IntCheck, MinCheck (Finite 1)]) (JNum (Finite 50)) (data ''radius'');
       v_source \<leftarrow> z_optional_default
          (z_enum [''default'', ''outdoor'']) (JStr ''default'') (data ''source'');
       Some \<lparr> location = v_location, lat_lng = v_lat_lng, pano_id = v_pano_id,
              radius = v_radius, source = v_source, filename = v_filename,
              size_str = v_size, heading = v_heading, pitch = v_pitch, fov = v_fov \<rparr>
     })"

text \<open>\<^verbatim>\<open>GetStreetViewSchema.parse\<close>: the object, then the refinement (lines 62 to 67).\<close>

definition GetStreetViewSchema :: "arguments \<Rightarrow> error + street_view_args" where
  "GetStreetViewSchema args = (case GetStreetViewObject args of
     None \<Rightarrow> Inl ZodError
   | Some data \<Rightarrow> if locationMethods data = 1 then Inr data else Inl ZodError)"

text \<open>The object of \<^verbatim>\<open>GetMetadataSchema\<close> (lines 69 to 74) and its \<^verbatim>\<open>parse\<close>.\<close>

definition GetMetadataObject :: "arguments \<Rightarrow> location_args option" where
  "GetMetadataObject args = (case args of
     None \<Rightarrow> None
   | Some data \<Rightarrow> do {
       v_location \<leftarrow> z_optional z_string (data ''location'');
       v_lat_lng \<leftarrow> z_optional z_string (data ''lat_lng'');
       v_pano_id \<leftarrow> z_optional z_string (data ''pano_id'');
       v_radius \<leftarrow> z_optional_default
          (z_number [IntCheck, MinCheck (Finite 1)]) (JNum (Finite 50)) (data ''radius'');
       v_source \<leftarrow> z_optional_default
          (z_enum [''default'', ''outdoor'']) (JStr ''default'') (data ''source'');
       Some \<lparr> location = v_location, lat_lng = v_lat_lng, pano_id = v_pano_id,
              radius = v_radius, source = v_source \<rparr>
     })"

definition GetMetadataSchema :: "arguments \<Rightarrow> error + location_args" where
  "GetMetadataSchema args = (case GetMetadataObject args of
     None \<Rightarrow> Inl ZodError
   | Some data \<Rightarrow> if locationMethods data = 1 then Inr data else Inl ZodError)"

text \<open>\<^verbatim>\<open>CreateHtmlPageSchema.parse\<close> (lines 82 to 86).\<close>

definition CreateHtmlPageSchema :: "arguments \<Rightarrow> error + html_page_args" where
  "CreateHtmlPageSchema args = (case args of
     None \<Rightarrow> Inl ZodError
   | Some data \<Rightarrow>
      (case do {
         v_filename \<leftarrow> z_string_min 1 (data ''filename'');
         v_title \<leftarrow> z_optional_default z_string (JStr ''Street View Tour'') (data ''title'');
         v_elements \<leftarrow> z_array_string_min 1 (data ''html_elements'');
         Some \<lparr> html_filename = v_filename, title = v_title, html_elements = v_elements \<rparr>
       } of None \<Rightarrow> Inl ZodError | Some v \<Rightarrow> Inr v))"

section \<open>The environment: paths, files, network\<close>

text \<open>
  A path is a root or \<^verbatim>\<open>join(dir, name)\<close>. \<^verbatim>\<open>path.join\<close> also normalises (it
  removes \<^verbatim>\<open>.\<close> and \<^verbatim>\<open>..\<close> segments and doubled separators); here a name is kept
  as the text it is. A name without a separator is one entry of the directory it is
  joined to; a name with a separator (the slash of POSIX) names an entry further down,
  in the directory named by the text before its last separator.
\<close>

datatype path = abs_path string | join path string

definition has_separator :: "string \<Rightarrow> bool" where
  "has_separator name = (CHR ''/'' \<in> set name)"

text \<open>The text before the last separator of a name.\<close>

definition before_last_separator :: "string \<Rightarrow> string" where
  "before_last_separator name = rev (tl (dropWhile (\<lambda>c. c \<noteq> CHR ''/'') (rev name)))"

text \<open>The directory that holds the entry at a path; a root has none.\<close>

fun parent :: "path \<Rightarrow> path option" where
  "parent (abs_path _) = None"
| "parent (join d name) =
     Some (if has_separator name then join d (before_last_separator name) else d)"

type_synonym bytes = string

text \<open>Times are the time values of \<^verbatim>\<open>Date\<close>: integer milliseconds since the epoch.\<close>

record node =
  isDirectory :: bool
  content :: bytes
  created_at :: int
  modified_at :: int

text \<open>
  The file system: its entries in directory order, and for each path the errno, if any,
  with which the operating system refuses every operation on it (permissions, a parent
  that is no directory, a device error).
\<close>

record filesystem =
  entries :: "(path \<times> node) list"
  faulty :: "path \<Rightarrow> errno option"

record stats =
  st_size :: nat
  birthtime :: int
  mtime :: int

text \<open>\<^verbatim>\<open>fs.access(p)\<close>: \<open>None\<close> when it resolves.\<close>

definition fs_access :: "filesystem \<Rightarrow> path \<Rightarrow> errno option" where
  "fs_access fsys p = (case faulty fsys p of
     Some e \<Rightarrow> Some e
   | None \<Rightarrow> (case map_of (entries fsys) p of None \<Rightarrow> Some ENOENT | Some _ \<Rightarrow> None))"

text \<open>
  \<^verbatim>\<open>fs.mkdir(p, { recursive: true })\<close> at time \<open>t\<close>: a directory that is there is no
  error, and a missing parent is none either (it is created too; only \<open>p\<close> itself is
  recorded here).
\<close>

definition fs_mkdir :: "int \<Rightarrow> filesystem \<Rightarrow> path \<Rightarrow> errno + filesystem" where
  "fs_mkdir t fsys p = (case faulty fsys p of
     Some e \<Rightarrow> Inl e
   | None \<Rightarrow> (case map_of (entries fsys) p of
        Some n \<Rightarrow> if isDirectory n then Inr fsys else Inl EEXIST
      | None \<Rightarrow> Inr (fsys\<lparr>entries := entries fsys @
          [(p, \<lparr>isDirectory = True, content = [], created_at = t, modified_at = t\<rparr>)]\<rparr>)))"

text \<open>
  What stands in the way of a new entry at \<open>p\<close>: the directory that is to hold it is
  missing (\<^verbatim>\<open>ENOENT\<close>) or is no directory (\<^verbatim>\<open>ENOTDIR\<close>).
\<close>

definition parent_error :: "filesystem \<Rightarrow> path \<Rightarrow> errno option" where
  "parent_error fsys p = (case parent p of
     None \<Rightarrow> None
   | Some d \<Rightarrow> (case map_of (entries fsys) d of
        None \<Rightarrow> Some ENOENT
      | Some n \<Rightarrow> if isDirectory n then None else Some ENOTDIR))"

text \<open>
  Writing a whole file at time \<open>t\<close>: new content for the entry that is there, or a new
  entry in a directory that is there. Nothing creates the directory.
\<close>

definition fs_writeFile :: "int \<Rightarrow> filesystem \<Rightarrow> path \<Rightarrow> bytes \<Rightarrow> errno + filesystem" where
  "fs_writeFile t fsys p data = (case faulty fsys p of
     Some e \<Rightarrow> Inl e
   | None \<Rightarrow> (case map_of (entries fsys) p of
        Some n \<Rightarrow> if isDirectory n then Inl EISDIR
          else Inr (fsys\<lparr>entries :=
            AList.update p (n\<lparr>content := data, modified_at := t\<rparr>) (entries fsys)\<rparr>)
      | None \<Rightarrow> (case parent_error fsys p of
           Some e \<Rightarrow> Inl e
         | None \<Rightarrow> Inr (fsys\<lparr>entries := entries fsys @
             [(p, \<lparr>isDirectory = False, content = data, created_at = t, modified_at = t\<rparr>)]\<rparr>))))"

text \<open>The name under which \<open>dir\<close> holds the entry at a path, if it does.\<close>

fun child_name :: "path \<Rightarrow> path \<Rightarrow> string option" where
  "child_name dir (join d name) = (if d = dir \<and> \<not> has_separator name then Some name else None)"
| "child_name dir (abs_path _) = None"

text \<open>The names of the entries of \<open>dir\<close>, in directory order.\<close>

definition listing :: "filesystem \<Rightarrow> path \<Rightarrow> string list" where
  "listing fsys dir = List.map_filter (\<lambda>(p, n). child_name dir p) (entries fsys)"

text \<open>\<^verbatim>\<open>fs.readdir(dir)\<close>\<close>

definition fs_readdir :: "filesystem \<Rightarrow> path \<Rightarrow> errno + string list" where
  "fs_readdir fsys dir = (case faulty fsys dir of
     Some e \<Rightarrow> Inl e
   | None \<Rightarrow> (case map_of (entries fsys) dir of
        None \<Rightarrow> Inl ENOENT
      | Some n \<Rightarrow> if isDirectory n
          then Inr (listing fsys dir)
          else Inl ENOTDIR))"

text \<open>\<^verbatim>\<open>fs.stat(p)\<close>\<close>

definition fs_stat :: "filesystem \<Rightarrow> path \<Rightarrow> errno + stats" where
  "fs_stat fsys p = (case faulty fsys p of
     Some e \<Rightarrow> Inl e
   | None \<Rightarrow> (case map_of (entries fsys) p of
        None \<Rightarrow> Inl ENOENT
      | Some n \<Rightarrow> Inr \<lparr>st_size = length (content n), birthtime = created_at n,
          mtime = modified_at n\<rparr>))"

text \<open>
  The query parameters of a request: \<^verbatim>\<open>Record<string, any>\<close>. \<open>PLatLng lat lng\<close> is the
  template string \<^verbatim>\<open>`${lat},${lng}`\<close>, kept as the two numbers it prints.
\<close>

datatype pval = PStr string | PNum number | PLatLng number number

type_synonym params = "string \<rightharpoonup> pval"

text \<open>How an \<^verbatim>\<open>axios.get\<close> ends, as the \<^verbatim>\<open>catch\<close> blocks of lines 157 to 172 tell it apart.\<close>

datatype 'a axios_result =
    Response 'a
  | ErrorWithResponse nat string
  | ErrorWithRequest string
  | ErrorOther string

text \<open>The interface \<^verbatim>\<open>StreetViewMetadata\<close> (lines 91 to 100).\<close>

datatype StreetViewMetadata = StreetViewMetadata
  (md_status: string) (md_copyright: "string option") (md_date: "string option")
  (md_pano_id: "string option") (md_location: "(number \<times> number) option")

text \<open>What \<^verbatim>\<open>sharp(...).metadata()\<close> is read for.\<close>

datatype image_metadata = ImageMetadata
  (width: "nat option") (height: "nat option") (format: "string option")

text \<open>
  What the process cannot decide: its working directory, the API key of the process
  environment, the answers of the upstream API, what \<^verbatim>\<open>sharp\<close> makes of a buffer and the
  collation \<^verbatim>\<open>localeCompare\<close> of the host.
\<close>

record env =
  cwd :: path
  GOOGLE_API_KEY :: "string option"
  axios_get_image :: "string \<Rightarrow> params \<Rightarrow> bytes axios_result"
  axios_get_json :: "string \<Rightarrow> params \<Rightarrow> StreetViewMetadata axios_result"
  sharp_jpeg :: "bytes \<Rightarrow> bytes option"
  sharp_metadata :: "bytes \<Rightarrow> image_metadata option"
  localeCompare :: "string \<Rightarrow> string \<Rightarrow> int"

definition BASE_URL :: string where
  "BASE_URL = ''https://maps.googleapis.com/maps/api/streetview''"

definition METADATA_URL :: string where
  "METADATA_URL = ''https://maps.googleapis.com/maps/api/streetview/metadata''"

definition OUTPUT_DIR :: "env \<Rightarrow> path" where
  "OUTPUT_DIR e = join (cwd e) ''output''"

definition HTML_DIR :: "env \<Rightarrow> path" where
  "HTML_DIR e = join (cwd e) ''html''"

section \<open>Effects\<close>

text \<open>
  Every call that leaves the process is recorded, in order, when it is made. Logging to
  standard error is not.
\<close>

datatype io_event =
    Access path
  | Mkdir path
  | WriteFile path
  | Readdir path
  | Stat path
  | ReadImage path
  | HttpGet string params

record world =
  fs :: filesystem
  now :: int
  trace :: "io_event list"

text \<open>An asynchronous function: from the world to what it resolves or rejects with, and the world after.\<close>

type_synonym 'a io = "world \<Rightarrow> (error + 'a) \<times> world"

definition io_return :: "'a \<Rightarrow> 'a io" where
  "io_return x = (\<lambda>w. (Inr x, w))"

definition io_throw :: "error \<Rightarrow> 'a io" where
  "io_throw err = (\<lambda>w. (Inl err, w))"

definition io_bind :: "'a io \<Rightarrow> ('a \<Rightarrow> 'b io) \<Rightarrow> 'b io" where
  "io_bind m f = (\<lambda>w. case m w of (Inl err, w') \<Rightarrow> (Inl err, w') | (Inr x, w') \<Rightarrow> f x w')"

definition io_catch :: "'a io \<Rightarrow> (error \<Rightarrow> 'a io) \<Rightarrow> 'a io" where
  "io_catch m h = (\<lambda>w. case m w of (Inl err, w') \<Rightarrow> h err w' | (Inr x, w') \<Rightarrow> (Inr x, w'))"

definition emit :: "io_event \<Rightarrow> world \<Rightarrow> world" where
  "emit ev w = w\<lparr>trace := trace w @ [ev]\<rparr>"

definition access :: "path \<Rightarrow> unit io" where
  "access p = (\<lambda>w. case fs_access (fs w) p of
     None \<Rightarrow> (Inr (), emit (Access p) w)
   | Some e \<Rightarrow> (Inl (SystemError e), emit (Access p) w))"

definition mkdir :: "path \<Rightarrow> unit io" where
  "mkdir p = (\<lambda>w. case fs_mkdir (now w) (fs w) p of
     Inl e \<Rightarrow> (Inl (SystemError e), emit (Mkdir p) w)
   | Inr fsys \<Rightarrow> (Inr (), emit (Mkdir p) (w\<lparr>fs := fsys\<rparr>)))"

definition writeFile :: "path \<Rightarrow> bytes \<Rightarrow> unit io" where
  "writeFile p data = (\<lambda>w. case fs_writeFile (now w) (fs w) p data of
     Inl e \<Rightarrow> (Inl (SystemError e), emit (WriteFile p) w)
   | Inr fsys \<Rightarrow> (Inr (), emit (WriteFile p) (w\<lparr>fs := fsys\<rparr>)))"

definition readdir :: "path \<Rightarrow> string list io" where
  "readdir p = (\<lambda>w. case fs_readdir (fs w) p of
     Inl e \<Rightarrow> (Inl (SystemError e), emit (Readdir p) w)
   | Inr names \<Rightarrow> (Inr names, emit (Readdir p) w))"

definition stat :: "path \<Rightarrow> stats io" where
  "stat p = (\<lambda>w. case fs_stat (fs w) p of
     Inl e \<Rightarrow> (Inl (SystemError e), emit (Stat p) w)
   | Inr st \<Rightarrow> (Inr st, emit (Stat p) w))"

text \<open>
  \<^verbatim>\<open>sharp(buffer).jpeg({ quality: 95 }).toFile(p)\<close>: the buffer is decoded and encoded
  again, then written; a buffer that is no image writes nothing.
\<close>

definition sharp_toFile :: "env \<Rightarrow> bytes \<Rightarrow> path \<Rightarrow> unit io" where
  "sharp_toFile e buffer p = (case sharp_jpeg e buffer of
     None \<Rightarrow> io_throw SharpError
   | Some jpeg \<Rightarrow> writeFile p jpeg)"

text \<open>\<^verbatim>\<open>sharp(p).metadata()\<close>: the file is read and its header decoded.\<close>

definition sharp_read_metadata :: "env \<Rightarrow> path \<Rightarrow> image_metadata io" where
  "sharp_read_metadata e p = (\<lambda>w.
     case (faulty (fs w) p, map_of (entries (fs w)) p) of
       (None, Some n) \<Rightarrow>
         (if isDirectory n then (Inl SharpError, emit (ReadImage p) w)
          else (case sharp_metadata e (content n) of
             None \<Rightarrow> (Inl SharpError, emit (ReadImage p) w)
           | Some md \<Rightarrow> (Inr md, emit (ReadImage p) w)))
     | _ \<Rightarrow> (Inl SharpError, emit (ReadImage p) w))"

section \<open>Strings and numbers in text\<close>

text \<open>
  White space of \<^verbatim>\<open>String.prototype.trim\<close> among the characters below 256: tab, line
  feed, vertical tab, form feed, carriage return, space and no-break space.
\<close>

definition is_space :: "char \<Rightarrow> bool" where
  "is_space c = (c \<in> set [CHR 0x09, CHR 0x0A, CHR 0x0B, CHR 0x0C, CHR 0x0D, CHR 0x20, CHR 0xA0])"

definition trim :: "string \<Rightarrow> string" where
  "trim s = rev (dropWhile is_space (rev (dropWhile is_space s)))"

text \<open>\<^verbatim>\<open>s.split(c)\<close> for a one-character separator: never the empty list.\<close>

fun split :: "char \<Rightarrow> string \<Rightarrow> string list" where
  "split c [] = [[]]"
| "split c (x # xs) =
     (case split c xs of
        [] \<Rightarrow> (if x = c then [[], []] else [[x]])
      | p # ps \<Rightarrow> (if x = c then [] # p # ps else (x # p) # ps))"

definition is_digit :: "char \<Rightarrow> bool" where
  "is_digit c = (c \<in> set ''0123456789'')"

definition digit_val :: "char \<Rightarrow> nat" where
  "digit_val c = of_char c - 48"

definition decimal :: "string \<Rightarrow> nat" where
  "decimal ds = foldl (\<lambda>a c. 10 * a + digit_val c) 0 ds"

fun neg :: "number \<Rightarrow> number" where
  "neg NaN = NaN"
| "neg PosInfinity = NegInfinity"
| "neg NegInfinity = PosInfinity"
| "neg (Finite q) = Finite (- q)"

text \<open>The exponent part at the head of the text, as a power of ten: 0 when there is none.\<close>

definition parse_exponent :: "string \<Rightarrow> int" where
  "parse_exponent s = (case s of
     [] \<Rightarrow> 0
   | c # r \<Rightarrow>
      if c = CHR ''e'' \<or> c = CHR ''E'' then
        (case r of
           [] \<Rightarrow> 0
         | sg # r' \<Rightarrow>
            if sg = CHR ''+'' \<or> sg = CHR ''-'' then
              (if takeWhile is_digit r' = [] then 0
               else if sg = CHR ''-'' then - int (decimal (takeWhile is_digit r'))
               else int (decimal (takeWhile is_digit r')))
            else if takeWhile is_digit r = [] then 0
            else int (decimal (takeWhile is_digit r)))
      else 0)"

definition scale10 :: "rat \<Rightarrow> int \<Rightarrow> rat" where
  "scale10 q k = (if 0 \<le> k then q * 10 ^ nat k else q / 10 ^ nat (- k))"

text \<open>
  The longest prefix that is an unsigned decimal literal (\<^verbatim>\<open>Infinity\<close>, or digits with an
  optional fraction and exponent), as its value; NaN when no prefix is one.
\<close>

definition parse_unsigned :: "string \<Rightarrow> number" where
  "parse_unsigned s =
     (if prefix ''Infinity'' s then PosInfinity
      else
        let ip = takeWhile is_digit s;
            r1 = dropWhile is_digit s;
            fp = (case r1 of [] \<Rightarrow> [] | c # r \<Rightarrow> if c = CHR ''.'' then takeWhile is_digit r else []);
            r2 = (case r1 of [] \<Rightarrow> [] | c # r \<Rightarrow> if c = CHR ''.'' then dropWhile is_digit r else r1)
        in if ip = [] \<and> fp = [] then NaN
           else Finite (scale10
             (of_nat (decimal ip) + of_nat (decimal fp) / 10 ^ length fp) (parse_exponent r2)))"

text \<open>\<^verbatim>\<open>parseFloat\<close>: leading white space, an optional sign, an unsigned literal; what follows is ignored.\<close>

definition parseFloat :: "string \<Rightarrow> number" where
  "parseFloat s = (case dropWhile is_space s of
     [] \<Rightarrow> NaN
   | c # r \<Rightarrow>
      if c = CHR ''-'' then neg (parse_unsigned r)
      else if c = CHR ''+'' then parse_unsigned r
      else parse_unsigned (c # r))"

text \<open>
  \<^verbatim>\<open>parseLatLng\<close> (lines 125 to 135). The destructuring \<^verbatim>\<open>[lat, lng]\<close> takes the first
  two parts and leaves \<^verbatim>\<open>lng\<close> undefined when there is one part only, and
  \<^verbatim>\<open>isNaN(undefined)\<close> is true; whatever is thrown inside is thrown again as the format error.
\<close>

definition parseLatLng :: "string \<Rightarrow> error + (number \<times> number)" where
  "parseLatLng latLng =
     (case map (\<lambda>s. parseFloat (trim s)) (split CHR '','' latLng) of
        lat # lng # _ \<Rightarrow> if isNaN lat \<or> isNaN lng then Inl InvalidLatLng else Inr (lat, lng)
      | _ \<Rightarrow> Inl InvalidLatLng)"

text \<open>\<^verbatim>\<open>s.endsWith(t)\<close>: the last \<open>length t\<close> characters of \<open>s\<close> are \<open>t\<close>.\<close>

definition endsWith :: "string \<Rightarrow> string \<Rightarrow> bool" where
  "endsWith s t = (length t \<le> length s \<and> drop (length s - length t) s = t)"

text \<open>\<^verbatim>\<open>toLowerCase\<close>, on ASCII letters (other characters are left as they are).\<close>

definition to_lower :: "char \<Rightarrow> char" where
  "to_lower c = (case map_of (zip ''ABCDEFGHIJKLMNOPQRSTUVWXYZ'' ''abcdefghijklmnopqrstuvwxyz'') c of
     Some l \<Rightarrow> l | None \<Rightarrow> c)"

definition toLowerCase :: "string \<Rightarrow> string" where
  "toLowerCase s = map to_lower s"

text \<open>\<^verbatim>\<open>xs.join(sep)\<close>\<close>

fun join_with :: "string \<Rightarrow> string list \<Rightarrow> string" where
  "join_with sep [] = []"
| "join_with sep [x] = x"
| "join_with sep (x # y # r) = x @ sep @ join_with sep (y # r)"

text \<open>\<^verbatim>\<open>Math.round(size / 1024)\<close>: the nearest integer, a half rounded up.\<close>

definition kilobytes :: "nat \<Rightarrow> nat" where
  "kilobytes n = (2 * n + 1024) div 2048"

section \<open>Dates\<close>

text \<open>
  \<^verbatim>\<open>Date.prototype.toISOString\<close> on a time value, after the ECMAScript definitions of
  the day number, the year, the month and the date of a time.
\<close>

definition msPerDay :: int where
  "msPerDay = 86400000"

definition DayFromYear :: "int \<Rightarrow> int" where
  "DayFromYear y = 365 * (y - 1970) + (y - 1969) div 4 - (y - 1901) div 100 + (y - 1601) div 400"

text \<open>The year of a day number: the last year that starts on or before it, looked for next to an estimate.\<close>

definition YearFromDay :: "int \<Rightarrow> int" where
  "YearFromDay d = (let y = 1970 + (400 * d) div 146097 in
     if DayFromYear (y + 1) \<le> d then y + 1 else if DayFromYear y \<le> d then y else y - 1)"

definition InLeapYear :: "int \<Rightarrow> int" where
  "InLeapYear y = (if y mod 4 = 0 \<and> (y mod 100 \<noteq> 0 \<or> y mod 400 = 0) then 1 else 0)"

text \<open>The first day of each month within the year, for the leap-year flag \<open>l\<close>.\<close>

definition month_starts :: "int \<Rightarrow> int list" where
  "month_starts l =
     [0, 31, 59 + l, 90 + l, 120 + l, 151 + l, 181 + l, 212 + l, 243 + l, 273 + l, 304 + l, 334 + l]"

text \<open>The month (0 to 11) of a day within the year: the last month that starts on or before it.\<close>

definition MonthFromDay :: "int \<Rightarrow> int \<Rightarrow> nat" where
  "MonthFromDay l dw = length (filter (\<lambda>s. s \<le> dw) (month_starts l)) - 1"

text \<open>\<open>digits k n\<close>: the last \<open>k\<close> decimal digits of \<open>n\<close>.\<close>

fun digits :: "nat \<Rightarrow> nat \<Rightarrow> string" where
  "digits 0 n = []"
| "digits (Suc k) n = digits k (n div 10) @ [''0123456789'' ! (n mod 10)]"

definition toISOString :: "int \<Rightarrow> string" where
  "toISOString t =
     (let d = t div msPerDay;
          ms = t mod msPerDay;
          y = YearFromDay d;
          dw = d - DayFromYear y;
          m = MonthFromDay (InLeapYear y) dw;
          date = dw - month_starts (InLeapYear y) ! m + 1;
          year = (if 0 \<le> y \<and> y \<le> 9999 then digits 4 (nat y)
                  else (if y < 0 then ''-'' else ''+'') @ digits 6 (nat \<bar>y\<bar>))
      in year @ ''-'' @ digits 2 (m + 1) @ ''-'' @ digits 2 (nat date) @ ''T''
         @ digits 2 (nat (ms div 3600000)) @ '':'' @ digits 2 (nat (ms div 60000 mod 60)) @ '':''
         @ digits 2 (nat (ms div 1000 mod 60)) @ ''.'' @ digits 3 (nat (ms mod 1000)) @ ''Z'')"

section \<open>Sorting\<close>

text \<open>
  \<^verbatim>\<open>Array.prototype.sort(compare)\<close>: stable; \<open>a\<close> stays before \<open>b\<close> unless
  \<open>compare a b\<close> is positive.
\<close>

fun insert_sorted :: "('a \<Rightarrow> 'a \<Rightarrow> int) \<Rightarrow> 'a \<Rightarrow> 'a list \<Rightarrow> 'a list" where
  "insert_sorted cmp x [] = [x]"
| "insert_sorted cmp x (y # ys) =
     (if cmp x y \<le> 0 then x # y # ys else y # insert_sorted cmp x ys)"

definition sort_js :: "('a \<Rightarrow> 'a \<Rightarrow> int) \<Rightarrow> 'a list \<Rightarrow> 'a list" where
  "sort_js cmp xs = foldr (insert_sorted cmp) xs []"

section \<open>The helpers of the server\<close>

text \<open>\<^verbatim>\<open>ensureDirectoryExists\<close> (lines 116 to 122): any failure of the access leads to \<^verbatim>\<open>mkdir\<close>.\<close>

definition ensureDirectoryExists :: "path \<Rightarrow> unit io" where
  "ensureDirectoryExists dir = io_catch (access dir) (\<lambda>_. mkdir dir)"

text \<open>
  The existence check of lines 358 to 366 and 516 to 524: the access is expected to
  fail; when it succeeds \<open>exists_error\<close> is thrown inside the \<^verbatim>\<open>try\<close>, and the
  \<^verbatim>\<open>catch\<close> lets pass only an error whose \<^verbatim>\<open>code\<close> is \<^verbatim>\<open>ENOENT\<close>.
\<close>

definition ensure_absent :: "path \<Rightarrow> error \<Rightarrow> unit io" where
  "ensure_absent filePath exists_error =
     io_catch (io_bind (access filePath) (\<lambda>_. io_throw exists_error))
       (\<lambda>err. if code err \<noteq> Some ENOENT then io_throw err else io_return ())"

definition io_lift :: "error + 'a \<Rightarrow> 'a io" where
  "io_lift r = (case r of Inl err \<Rightarrow> io_throw err | Inr x \<Rightarrow> io_return x)"

text \<open>
  The location parameter, set the same way by both handlers (lines 380 to 388 and 456
  to 464): the first truthy selector wins, and a panorama id deletes \<^verbatim>\<open>radius\<close>.
\<close>

definition set_location :: "'a location_args_scheme \<Rightarrow> params \<Rightarrow> error + params" where
  "set_location v ps =
     (if Boolean (location v) then Inr (ps(''location'' \<mapsto> PStr (the (location v))))
      else if Boolean (lat_lng v) then
        (case parseLatLng (the (lat_lng v)) of
           Inl err \<Rightarrow> Inl err
         | Inr (lat, lng) \<Rightarrow> Inr (ps(''location'' \<mapsto> PLatLng lat lng)))
      else if Boolean (pano_id v) then
        Inr ((ps(''pano'' \<mapsto> PStr (the (pano_id v))))(''radius'' := None))
      else Inr ps)"

definition key_missing :: error where
  "key_missing = UnexpectedError
     ''GOOGLE_API_KEY not found in environment variables. Please set your Google Maps API key.''"

text \<open>
  \<^verbatim>\<open>makeApiRequest\<close> (lines 138 to 173). Without a key nothing is sent: the error is
  thrown inside the \<^verbatim>\<open>try\<close> and thrown again as an unexpected error. Otherwise the
  parameters go out with the key added.
\<close>

definition makeApiRequest :: "env \<Rightarrow> string \<Rightarrow> params \<Rightarrow> bytes io" where
  "makeApiRequest e url ps =
     (if \<not> Boolean (GOOGLE_API_KEY e) then io_throw key_missing
      else (\<lambda>w.
        let sent = ps(''key'' \<mapsto> PStr (the (GOOGLE_API_KEY e)));
            w' = emit (HttpGet url sent) w
        in case axios_get_image e url sent of
             Response data \<Rightarrow> (Inr data, w')
           | ErrorWithResponse status statusText \<Rightarrow> (Inl (ApiRequestFailed status statusText), w')
           | ErrorWithRequest message \<Rightarrow> (Inl (NetworkFailure message), w')
           | ErrorOther message \<Rightarrow> (Inl (UnexpectedError message), w')))"

text \<open>\<^verbatim>\<open>makeMetadataRequest\<close> (lines 176 to 210).\<close>

definition makeMetadataRequest :: "env \<Rightarrow> string \<Rightarrow> params \<Rightarrow> StreetViewMetadata io" where
  "makeMetadataRequest e url ps =
     (if \<not> Boolean (GOOGLE_API_KEY e) then io_throw key_missing
      else (\<lambda>w.
        let sent = ps(''key'' \<mapsto> PStr (the (GOOGLE_API_KEY e)));
            w' = emit (HttpGet url sent) w
        in case axios_get_json e url sent of
             Response data \<Rightarrow> (Inr data, w')
           | ErrorWithResponse status statusText \<Rightarrow>
               (Inl (MetadataApiRequestFailed status statusText), w')
           | ErrorWithRequest message \<Rightarrow> (Inl (NetworkFailure message), w')
           | ErrorOther message \<Rightarrow> (Inl (UnexpectedError message), w')))"

section \<open>The tool handlers\<close>

text \<open>One entry of \<^verbatim>\<open>list_saved_images\<close>; the dimensions and the format are left out when \<^verbatim>\<open>sharp\<close> cannot read the file.\<close>

datatype image_info = ImageInfo
  (info_filename: string) (info_size: nat) (dimensions: "(nat option \<times> nat option) option")
  (info_format: "string option") (created: string) (modified: string)

text \<open>
  The success payloads, one per tool, with the fields of the JSON they are printed as;
  a size is kept as its number of kilobytes.
\<close>

datatype payload =
    StreetViewSaved string path image_metadata nat params
  | MetadataFetched StreetViewMetadata params
  | HtmlPageCreated string path string nat
  | SavedImages path nat "image_info list"

text \<open>
  What a call returns: a success, the error envelope of a handler's own \<^verbatim>\<open>catch\<close>
  (with the prefix it puts before the message), or the envelope of the outer
  \<^verbatim>\<open>catch\<close> of lines 671 to 681. Both envelopes have \<^verbatim>\<open>isError: true\<close>.
\<close>

datatype tool_result =
    ToolSuccess payload
  | HandlerError string error
  | ToolError error

definition finish :: "string \<Rightarrow> payload io \<Rightarrow> world \<Rightarrow> tool_result \<times> world" where
  "finish pre m w = (case m w of
     (Inl err, w') \<Rightarrow> (HandlerError pre err, w')
   | (Inr p, w') \<Rightarrow> (ToolSuccess p, w'))"

text \<open>The request parameters before the location is set (lines 369 to 377).\<close>

definition street_view_params :: "street_view_args \<Rightarrow> params" where
  "street_view_params v =
     [''size'' \<mapsto> PStr (size_str v), ''heading'' \<mapsto> PNum (heading v),
      ''pitch'' \<mapsto> PNum (pitch v), ''fov'' \<mapsto> PNum (fov v),
      ''radius'' \<mapsto> PNum (radius v), ''source'' \<mapsto> PStr (source v),
      ''return_error_code'' \<mapsto> PStr ''true'']"

text \<open>The body of the \<^verbatim>\<open>try\<close> of \<^verbatim>\<open>get_street_view\<close> (lines 352 to 428).\<close>

definition street_view_body :: "env \<Rightarrow> street_view_args \<Rightarrow> payload io" where
  "street_view_body e v =
     io_bind (ensureDirectoryExists (OUTPUT_DIR e)) (\<lambda>_.
     let filePath = join (OUTPUT_DIR e) (filename v) in
     io_bind (ensure_absent filePath (FileExists (filename v))) (\<lambda>_.
     io_bind (io_lift (set_location v (street_view_params v))) (\<lambda>ps.
     io_bind (makeApiRequest e BASE_URL ps) (\<lambda>imageBuffer.
     io_bind (sharp_toFile e imageBuffer filePath) (\<lambda>_.
     io_bind (sharp_read_metadata e filePath) (\<lambda>metadata.
     io_bind (stat filePath) (\<lambda>st.
     io_return (StreetViewSaved (filename v) filePath metadata (kilobytes (st_size st))
       ([''size'' \<mapsto> PStr (size_str v), ''heading'' \<mapsto> PNum (heading v),
         ''pitch'' \<mapsto> PNum (pitch v), ''fov'' \<mapsto> PNum (fov v),
         ''source'' \<mapsto> PStr (source v)]
         (''location'' := map_option PStr (or_else (location v) (or_else (lat_lng v) (pano_id v))),
          ''radius'' := (if Boolean (pano_id v) then None else Some (PNum (radius v)))))))))))))"

text \<open>\<^verbatim>\<open>case "get_street_view"\<close> (lines 348 to 442): the schema first, outside the inner \<^verbatim>\<open>try\<close>.\<close>

definition get_street_view :: "env \<Rightarrow> arguments \<Rightarrow> world \<Rightarrow> tool_result \<times> world" where
  "get_street_view e args w = (case GetStreetViewSchema args of
     Inl err \<Rightarrow> (ToolError err, w)
   | Inr v \<Rightarrow> finish ''Street View image fetch failed: '' (street_view_body e v) w)"

text \<open>\<^verbatim>\<open>case "get_metadata"\<close> (lines 444 to 501); its parameters start as lines 450 to 453 have them.\<close>

definition metadata_params :: "location_args \<Rightarrow> params" where
  "metadata_params v = [''radius'' \<mapsto> PNum (radius v), ''source'' \<mapsto> PStr (source v)]"

definition metadata_body :: "env \<Rightarrow> location_args \<Rightarrow> payload io" where
  "metadata_body e v =
     io_bind (io_lift (set_location v (metadata_params v))) (\<lambda>ps.
     io_bind (makeMetadataRequest e METADATA_URL ps) (\<lambda>metadata.
     io_return (MetadataFetched metadata
       ([''source'' \<mapsto> PStr (source v)]
         (''location'' := map_option PStr (or_else (location v) (or_else (lat_lng v) (pano_id v))),
          ''radius'' := (if Boolean (pano_id v) then None else Some (PNum (radius v))))))))"

definition get_metadata :: "env \<Rightarrow> arguments \<Rightarrow> world \<Rightarrow> tool_result \<times> world" where
  "get_metadata e args w = (case GetMetadataSchema args of
     Inl err \<Rightarrow> (ToolError err, w)
   | Inr v \<Rightarrow> finish ''Metadata fetch failed: '' (metadata_body e v) w)"

text \<open>The file name of the page (line 512).\<close>

definition htmlFilename :: "string \<Rightarrow> string" where
  "htmlFilename name = (if endsWith name ''.html'' then name else name @ ''.html'')"

text \<open>The page (lines 530 to 566).\<close>

definition htmlTemplate :: "string \<Rightarrow> string \<Rightarrow> string" where
  \<open>htmlTemplate page_title page_content =
     ''<!DOCTYPE html>\<newline><html lang="en">\<newline><head>\<newline>''
     @ ''    <meta charset="UTF-8">\<newline>''
     @ ''    <meta name="viewport" content="width=device-width, initial-scale=1.0">\<newline>''
     @ ''    <title>'' @ page_title @ ''</title>\<newline>''
     @ ''    <style>\<newline>''
     @ ''        body {\<newline>''
     @ ''            font-family: Arial, sans-serif;\<newline>''
     @ ''            line-height: 1.6;\<newline>''
     @ ''            max-width: 800px;\<newline>''
     @ ''            margin: 0 auto;\<newline>''
     @ ''            padding: 20px;\<newline>''
     @ ''            color: #333;\<newline>''
     @ ''        }\<newline>''
     @ ''        img {\<newline>''
     @ ''            max-width: 100%;\<newline>''
     @ ''            height: auto;\<newline>''
     @ ''            border-radius: 5px;\<newline>''
     @ ''            margin: 20px 0;\<newline>''
     @ ''        }\<newline>''
     @ ''        h1, h2, h3 {\<newline>''
     @ ''            color: #2c3e50;\<newline>''
     @ ''        }\<newline>''
     @ ''        .location {\<newline>''
     @ ''            font-weight: bold;\<newline>''
     @ ''            margin-bottom: 5px;\<newline>''
     @ ''        }\<newline>''
     @ ''        .description {\<newline>''
     @ ''            margin-bottom: 30px;\<newline>''
     @ ''        }\<newline>''
     @ ''    </style>\<newline>''
     @ ''</head>\<newline>''
     @ ''<body>\<newline>''
     @ page_content @ ''\<newline>''
     @ ''</body>\<newline>''
     @ ''</html>''\<close>

text \<open>\<^verbatim>\<open>case "create_html_page"\<close> (lines 503 to 599).\<close>

definition html_page_body :: "env \<Rightarrow> html_page_args \<Rightarrow> payload io" where
  "html_page_body e v =
     io_bind (ensureDirectoryExists (HTML_DIR e)) (\<lambda>_.
     let name = htmlFilename (html_filename v);
         filePath = join (HTML_DIR e) name
     in
     io_bind (ensure_absent filePath (FileExists name)) (\<lambda>_.
     io_bind (writeFile filePath
        (htmlTemplate (title v) (join_with ''\<newline>'' (html_elements v)))) (\<lambda>_.
     io_return (HtmlPageCreated name filePath (title v) (length (html_elements v))))))"

definition create_html_page :: "env \<Rightarrow> arguments \<Rightarrow> world \<Rightarrow> tool_result \<times> world" where
  "create_html_page e args w = (case CreateHtmlPageSchema args of
     Inl err \<Rightarrow> (ToolError err, w)
   | Inr v \<Rightarrow> finish ''HTML page creation failed: '' (html_page_body e v) w)"

text \<open>\<^verbatim>\<open>case "list_saved_images"\<close> (lines 601 to 666).\<close>

definition imageExtensions :: "string list" where
  "imageExtensions = [''.jpg'', ''.jpeg'', ''.png'', ''.gif'', ''.bmp'', ''.webp'']"

definition is_image_file :: "string \<Rightarrow> bool" where
  "is_image_file file = list_ex (\<lambda>ext. endsWith (toLowerCase file) ext) imageExtensions"

text \<open>
  The callback of \<^verbatim>\<open>imageFiles.map\<close> (lines 615 to 638): a failing \<^verbatim>\<open>stat\<close>
  rejects, a failing \<^verbatim>\<open>sharp\<close> gives the entry without dimensions and format.
\<close>

definition image_info_of :: "env \<Rightarrow> path \<Rightarrow> string \<Rightarrow> image_info io" where
  "image_info_of e dir file =
     (let filePath = join dir file in
      io_bind (stat filePath) (\<lambda>st.
      io_catch
        (io_bind (sharp_read_metadata e filePath) (\<lambda>metadata.
         io_return (ImageInfo file (kilobytes (st_size st))
           (Some (width metadata, height metadata)) (format metadata)
           (toISOString (birthtime st)) (toISOString (mtime st)))))
        (\<lambda>_. io_return (ImageInfo file (kilobytes (st_size st)) None None
           (toISOString (birthtime st)) (toISOString (mtime st))))))"

text \<open>
  \<^verbatim>\<open>Promise.all\<close> over the entries, taken one after the other in the order of the
  array; the first rejection rejects the whole.
\<close>

fun image_infos :: "env \<Rightarrow> path \<Rightarrow> string list \<Rightarrow> image_info list io" where
  "image_infos e dir [] = io_return []"
| "image_infos e dir (file # files) =
     io_bind (image_info_of e dir file) (\<lambda>i.
     io_bind (image_infos e dir files) (\<lambda>rest. io_return (i # rest)))"

text \<open>The comparison of line 648: \<^verbatim>\<open>b.modified.localeCompare(a.modified)\<close>.\<close>

definition by_modified_desc :: "env \<Rightarrow> image_info \<Rightarrow> image_info \<Rightarrow> int" where
  "by_modified_desc e a b = localeCompare e (modified b) (modified a)"

definition list_saved_images_body :: "env \<Rightarrow> payload io" where
  "list_saved_images_body e =
     io_bind (ensureDirectoryExists (OUTPUT_DIR e)) (\<lambda>_.
     io_bind (readdir (OUTPUT_DIR e)) (\<lambda>files.
     io_bind (image_infos e (OUTPUT_DIR e) (filter is_image_file files)) (\<lambda>imageInfo.
     io_return (SavedImages (OUTPUT_DIR e) (length imageInfo)
       (sort_js (by_modified_desc e) imageInfo)))))"

definition list_saved_images :: "env \<Rightarrow> world \<Rightarrow> tool_result \<times> world" where
  "list_saved_images e w = finish ''Failed to list saved images: '' (list_saved_images_body e) w"

text \<open>The request handler (lines 343 to 682).\<close>

definition call_tool :: "env \<Rightarrow> string \<Rightarrow> arguments \<Rightarrow> world \<Rightarrow> tool_result \<times> world" where
  "call_tool e name args w =
     (if name = ''get_street_view'' then get_street_view e args w
      else if name = ''get_metadata'' then get_metadata e args w
      else if name = ''create_html_page'' then create_html_page e args w
      else if name = ''list_saved_images'' then list_saved_images e w
      else (ToolError (UnknownTool name), w))"

section \<open>Observing a call\<close>

text \<open>The events a call adds to the trace, from the world before and the world after.\<close>

definition events :: "world \<Rightarrow> world \<Rightarrow> io_event list" where
  "events w w' = drop (length (trace w)) (trace w')"

text \<open>The parameter sets of the requests among some events, in order.\<close>

fun request_of :: "io_event \<Rightarrow> params option" where
  "request_of (HttpGet url ps) = Some ps"
| "request_of _ = None"

definition sent :: "io_event list \<Rightarrow> params list" where
  "sent evs = List.map_filter request_of evs"

text \<open>
  \<open>yields m P\<close>: whatever the world, \<open>m\<close> only adds events to the trace, and its
  outcome and the events it adds satisfy \<open>P\<close>. \<open>quiet m\<close>: none of them is a request.
\<close>

definition yields :: "'a io \<Rightarrow> (error + 'a \<Rightarrow> io_event list \<Rightarrow> bool) \<Rightarrow> bool" where
  "yields m P = (\<forall>w. \<exists>evs. trace (snd (m w)) = trace w @ evs \<and> P (fst (m w)) evs)"

definition quiet :: "'a io \<Rightarrow> bool" where
  "quiet m = yields m (\<lambda>r evs. sent evs = [])"

text \<open>
  A selector counts as provided when the request has it and it is not the empty string;
  \<open>supplied\<close> is the weaker reading, the request has it.
\<close>

definition provided :: "json option \<Rightarrow> bool" where
  "provided x = (x \<noteq> None \<and> x \<noteq> Some (JStr []))"

definition supplied :: "json option \<Rightarrow> bool" where
  "supplied x = (x \<noteq> None)"

definition selectors :: "(string \<rightharpoonup> json) \<Rightarrow> json option list" where
  "selectors data = [data ''location'', data ''lat_lng'', data ''pano_id'']"

definition selector_count :: "arguments \<Rightarrow> nat" where
  "selector_count args =
     (case args of None \<Rightarrow> 0 | Some data \<Rightarrow> length (filter provided (selectors data)))"

text \<open>The error a result carries, if any.\<close>

fun result_error :: "tool_result \<Rightarrow> error option" where
  "result_error (ToolSuccess p) = None"
| "result_error (HandlerError pre err) = Some err"
| "result_error (ToolError err) = Some err"

text \<open>
  \<open>one_request ps r reqs\<close>: the requests \<open>reqs\<close> of a computation that ended with \<open>r\<close>
  are the one request \<open>ps\<close>, or none at all and then \<open>r\<close> is an error.
  \<open>requests_of e loc r reqs\<close>: the same for the parameters \<open>loc\<close> that \<^verbatim>\<open>set_location\<close>
  produced, with the key added; when it threw there is no request.
\<close>

definition one_request :: "params \<Rightarrow> error + 'a \<Rightarrow> params list \<Rightarrow> bool" where
  "one_request ps r reqs = (reqs = [ps] \<or> (reqs = [] \<and> isl r))"

definition requests_of :: "env \<Rightarrow> error + params \<Rightarrow> error + 'a \<Rightarrow> params list \<Rightarrow> bool" where
  "requests_of e loc r reqs = (case loc of
     Inl err \<Rightarrow> reqs = [] \<and> isl r
   | Inr ps \<Rightarrow> one_request (ps(''key'' \<mapsto> PStr (the (GOOGLE_API_KEY e)))) r reqs)"

text \<open>\<open>extends m\<close>: \<open>m\<close> only adds events to the trace.\<close>

definition extends :: "'a io \<Rightarrow> bool" where
  "extends m = yields m (\<lambda>r evs. True)"

text \<open>
  Among some events, no request is sent, or the access to \<open>p\<close> comes before the first
  request.
\<close>

definition checked_before_request :: "path \<Rightarrow> io_event list \<Rightarrow> bool" where
  "checked_before_request p evs =
     (sent evs = [] \<or> Access p \<in> set (takeWhile (\<lambda>ev. request_of ev = None) evs))"





text \<open>\<open>preserves_when P m\<close>: from a disk that satisfies \<open>P\<close>, \<open>m\<close> leaves the disk as it was.\<close>

definition preserves_when :: "(filesystem \<Rightarrow> bool) \<Rightarrow> 'a io \<Rightarrow> bool" where
  "preserves_when P m = (\<forall>w. P (fs w) \<longrightarrow> fs (snd (m w)) = fs w)"

section \<open>A concrete environment\<close>

text \<open>Comparison of strings by code unit: the order of a collation on digits and on text equal but for digits.\<close>

fun compare_code_units :: "string \<Rightarrow> string \<Rightarrow> int" where
  "compare_code_units [] [] = 0"
| "compare_code_units [] (y # ys) = - 1"
| "compare_code_units (x # xs) [] = 1"
| "compare_code_units (x # xs) (y # ys) =
     (if (of_char x :: nat) < of_char y then - 1
      else if (of_char y :: nat) < of_char x then 1
      else compare_code_units xs ys)"

text \<open>
  An upstream that answers every request, a \<^verbatim>\<open>sharp\<close> that takes every buffer for a
  600 by 400 JPEG, and an empty disk.
\<close>

definition example_env :: env where
  "example_env = \<lparr>
     cwd = abs_path ''/srv'',
     GOOGLE_API_KEY = Some ''secret'',
     axios_get_image = (\<lambda>url ps. Response ''image bytes''),
     axios_get_json = (\<lambda>url ps. Response (StreetViewMetadata ''OK'' None None None None)),
     sharp_jpeg = (\<lambda>buffer. Some buffer),
     sharp_metadata = (\<lambda>buffer. Some (ImageMetadata (Some 600) (Some 400) (Some ''jpeg''))),
     localeCompare = compare_code_units \<rparr>"

definition empty_world :: world where
  "empty_world = \<lparr> fs = \<lparr> entries = [], faulty = (\<lambda>p. None) \<rparr>, now = 1730641112345, trace = [] \<rparr>"

text \<open>Requests used as examples below.\<close>

definition empty_location_request :: "string \<rightharpoonup> json" where
  "empty_location_request =
     [''filename'' \<mapsto> JStr ''a.jpg'', ''location'' \<mapsto> JStr '''', ''pano_id'' \<mapsto> JStr ''abc'']"

definition panorama_request :: "string \<rightharpoonup> json" where
  "panorama_request = [''filename'' \<mapsto> JStr ''a.jpg'', ''pano_id'' \<mapsto> JStr ''abc'']"

definition address_request :: "string \<rightharpoonup> json" where
  "address_request = [''filename'' \<mapsto> JStr ''a.jpg'', ''location'' \<mapsto> JStr ''Rome'']"

definition coordinates_request :: "string \<rightharpoonup> json" where
  "coordinates_request = [''filename'' \<mapsto> JStr ''a.jpg'', ''lat_lng'' \<mapsto> JStr ''40.7,-74.0'']"

definition malformed_lat_lng_request :: "string \<rightharpoonup> json" where
  "malformed_lat_lng_request = [''filename'' \<mapsto> JStr ''a.jpg'', ''lat_lng'' \<mapsto> JStr ''abc'']"


text \<open>The same page, asked for below a directory \<^verbatim>\<open>sub\<close> of the page directory.\<close>

definition nested_tour_request :: "string \<rightharpoonup> json" where
  "nested_tour_request =
     [''filename'' \<mapsto> JStr ''sub/tour'', ''html_elements'' \<mapsto> JArr [JStr ''<h1>Rome</h1>'']]"

text \<open>A disk where the output directory already holds \<^verbatim>\<open>a.jpg\<close>.\<close>

definition occupied_world :: world where
  "occupied_world = \<lparr>
     fs = \<lparr> entries =
       [(join (abs_path ''/srv'') ''output'',
           \<lparr>isDirectory = True, content = [], created_at = 0, modified_at = 0\<rparr>),
        (join (join (abs_path ''/srv'') ''output'') ''a.jpg'',
           \<lparr>isDirectory = False, content = ''old bytes'', created_at = 1, modified_at = 1\<rparr>)],
       faulty = (\<lambda>p. None) \<rparr>,
     now = 1730641112345, trace = [] \<rparr>"


section \<open>Unfolding\<close>

lemmas io_defs = io_bind_def io_catch_def io_return_def io_throw_def io_lift_def emit_def
  access_def mkdir_def writeFile_def readdir_def stat_def finish_def
  ensureDirectoryExists_def ensure_absent_def
  fs_access_def fs_mkdir_def fs_writeFile_def fs_readdir_def fs_stat_def

lemmas schema_defs = GetStreetViewSchema_def GetStreetViewObject_def GetMetadataSchema_def
  GetMetadataObject_def CreateHtmlPageSchema_def z_string_min_def z_optional_def
  z_optional_default_def locationMethods_def

lemmas example_defs = example_env_def empty_world_def OUTPUT_DIR_def HTML_DIR_def
  parent_error_def has_separator_def

lemma sent_simps [simp]:
  "sent [] = []"
  "sent (HttpGet url ps # evs) = ps # sent evs"
  "sent (Access p # evs) = sent evs"
  "sent (Mkdir p # evs) = sent evs"
  "sent (WriteFile p # evs) = sent evs"
  "sent (Readdir p # evs) = sent evs"
  "sent (Stat p # evs) = sent evs"
  "sent (ReadImage p # evs) = sent evs"
  by (simp_all add: sent_def List.map_filter_simps)

lemma sent_append [simp]: "sent (a @ b) = sent a @ sent b"
  by (simp add: sent_def List.map_filter_def)

section \<open>Validation\<close>

lemma z_number_check_fails:
  "\<not> list_all (check_ok n) checks \<Longrightarrow> z_optional_default (z_number checks) d (Some (JNum n)) = None"
  by (simp add: z_optional_default_def)

lemma object_None_heading:
  "z_optional_default (z_number [IntCheck, MinCheck (Finite 0), MaxCheck (Finite 360)])
      (JNum (Finite 0)) (data ''heading'') = None \<Longrightarrow> GetStreetViewObject (Some data) = None"
  by (simp add: GetStreetViewObject_def bind_eq_None_conv)

lemma object_None_pitch:
  "z_optional_default (z_number [IntCheck, MinCheck (Finite (- 90)), MaxCheck (Finite 90)])
      (JNum (Finite 0)) (data ''pitch'') = None \<Longrightarrow> GetStreetViewObject (Some data) = None"
  by (simp add: GetStreetViewObject_def bind_eq_None_conv)

lemma object_None_fov:
  "z_optional_default (z_number [IntCheck, MinCheck (Finite 10), MaxCheck (Finite 120)])
      (JNum (Finite 90)) (data ''fov'') = None \<Longrightarrow> GetStreetViewObject (Some data) = None"
  by (simp add: GetStreetViewObject_def bind_eq_None_conv)

lemma object_None_radius:
  "z_optional_default (z_number [IntCheck, MinCheck (Finite 1)])
      (JNum (Finite 50)) (data ''radius'') = None \<Longrightarrow> GetStreetViewObject (Some data) = None"
  by (simp add: GetStreetViewObject_def bind_eq_None_conv)

lemma street_view_rejected:
  "GetStreetViewObject args = None \<Longrightarrow> get_street_view e args w = (ToolError ZodError, w)"
  by (simp add: get_street_view_def GetStreetViewSchema_def)

lemma isInteger_Finite: "isInteger (Finite q) \<longleftrightarrow> q \<in> \<int>"
  by simp

text \<open>
  Claim C3. A \<^verbatim>\<open>get_street_view\<close> request with a heading below 0 or above 360, a pitch
  below -90 or above 90, a field of view below 10 or above 120, or a radius below 1 is
  answered with the validation error, and the world is left as it was: no request is
  sent, nothing on the disk is touched.
\<close>

theorem out_of_range_is_rejected:
  assumes "(\<exists>n. data ''heading'' = Some (JNum n) \<and> (num_less n (Finite 0) \<or> num_less (Finite 360) n))
         \<or> (\<exists>n. data ''pitch'' = Some (JNum n) \<and> (num_less n (Finite (- 90)) \<or> num_less (Finite 90) n))
         \<or> (\<exists>n. data ''fov'' = Some (JNum n) \<and> (num_less n (Finite 10) \<or> num_less (Finite 120) n))
         \<or> (\<exists>n. data ''radius'' = Some (JNum n) \<and> num_less n (Finite 1))"
  shows "get_street_view e (Some data) w = (ToolError ZodError, w)
         \<and> kind_of ZodError = ValidationError"
proof -
  have "GetStreetViewObject (Some data) = None"
    using assms
    by (auto intro: object_None_heading object_None_pitch object_None_fov object_None_radius
          simp: z_number_check_fails)
  then show ?thesis
    by (simp add: street_view_rejected)
qed

theorem out_of_range_is_rejected_witness:
  "get_street_view example_env
      (Some [''filename'' \<mapsto> JStr ''a.jpg'', ''location'' \<mapsto> JStr ''Rome'',
             ''heading'' \<mapsto> JNum (Finite 361)]) empty_world = (ToolError ZodError, empty_world)
   \<and> get_street_view example_env
      (Some [''filename'' \<mapsto> JStr ''a.jpg'', ''location'' \<mapsto> JStr ''Rome'',
             ''pitch'' \<mapsto> JNum (Finite 91)]) empty_world = (ToolError ZodError, empty_world)
   \<and> get_street_view example_env
      (Some [''filename'' \<mapsto> JStr ''a.jpg'', ''location'' \<mapsto> JStr ''Rome'',
             ''fov'' \<mapsto> JNum (Finite 5)]) empty_world = (ToolError ZodError, empty_world)"
proof (intro conjI)
  show "get_street_view example_env
      (Some [''filename'' \<mapsto> JStr ''a.jpg'', ''location'' \<mapsto> JStr ''Rome'',
             ''heading'' \<mapsto> JNum (Finite 361)]) empty_world = (ToolError ZodError, empty_world)"
    by (rule out_of_range_is_rejected [THEN conjunct1]) simp
  show "get_street_view example_env
      (Some [''filename'' \<mapsto> JStr ''a.jpg'', ''location'' \<mapsto> JStr ''Rome'',
             ''pitch'' \<mapsto> JNum (Finite 91)]) empty_world = (ToolError ZodError, empty_world)"
    by (rule out_of_range_is_rejected [THEN conjunct1]) simp
  show "get_street_view example_env
      (Some [''filename'' \<mapsto> JStr ''a.jpg'', ''location'' \<mapsto> JStr ''Rome'',
             ''fov'' \<mapsto> JNum (Finite 5)]) empty_world = (ToolError ZodError, empty_world)"
    by (rule out_of_range_is_rejected [THEN conjunct1]) simp
qed

text \<open>
  Claim C9. A \<^verbatim>\<open>get_street_view\<close> request whose heading, pitch, field of view or radius
  is a number that is not an integer is answered with the validation error, whether the
  number is within the range of the field or not, and the world is left as it was.
\<close>

theorem non_integer_is_rejected:
  assumes "k \<in> {''heading'', ''pitch'', ''fov'', ''radius''}"
    and "data k = Some (JNum (Finite q))"
    and "q \<notin> \<int>"
  shows "get_street_view e (Some data) w = (ToolError ZodError, w)
         \<and> kind_of ZodError = ValidationError"
proof -
  have "\<not> isInteger (Finite q)"
    using assms(3) by (simp only: isInteger_Finite not_False_eq_True)
  then have "GetStreetViewObject (Some data) = None"
    using assms(1,2)
    by (auto intro: object_None_heading object_None_pitch object_None_fov object_None_radius
          simp: z_number_check_fails)
  then show ?thesis
    by (simp add: street_view_rejected)
qed

theorem non_integer_is_rejected_witness:
  "get_street_view example_env
      (Some [''filename'' \<mapsto> JStr ''a.jpg'', ''location'' \<mapsto> JStr ''Rome'',
             ''heading'' \<mapsto> JNum (Finite (181 / 2))]) empty_world = (ToolError ZodError, empty_world)"
  by (rule non_integer_is_rejected [where k = "''heading''" and q = "181 / 2", THEN conjunct1]) simp_all


section \<open>The location selectors\<close>

lemma street_view_selectors:
  assumes "GetStreetViewObject (Some data) = Some v"
  shows "z_optional z_string (data ''location'') = Some (location v)"
    and "z_optional z_string (data ''lat_lng'') = Some (lat_lng v)"
    and "z_optional z_string (data ''pano_id'') = Some (pano_id v)"
  using assms by (auto simp: GetStreetViewObject_def bind_eq_Some_conv)

lemma metadata_selectors:
  assumes "GetMetadataObject (Some data) = Some v"
  shows "z_optional z_string (data ''location'') = Some (location v)"
    and "z_optional z_string (data ''lat_lng'') = Some (lat_lng v)"
    and "z_optional z_string (data ''pano_id'') = Some (pano_id v)"
  using assms by (auto simp: GetMetadataObject_def bind_eq_Some_conv)

lemma Boolean_provided:
  "z_optional z_string x = Some y \<Longrightarrow> Boolean y = provided x"
  by (cases x rule: z_string.cases) (auto simp: z_optional_def provided_def)

lemma street_view_locationMethods:
  assumes "GetStreetViewObject (Some data) = Some v"
  shows "locationMethods v = length (filter provided (selectors data))"
proof -
  have "Boolean (location v) = provided (data ''location'')"
    "Boolean (lat_lng v) = provided (data ''lat_lng'')"
    "Boolean (pano_id v) = provided (data ''pano_id'')"
    using street_view_selectors [OF assms] by (simp_all only: Boolean_provided)
  then show ?thesis
    by (simp add: locationMethods_def selectors_def)
qed

lemma metadata_locationMethods:
  assumes "GetMetadataObject (Some data) = Some v"
  shows "locationMethods v = length (filter provided (selectors data))"
proof -
  have "Boolean (location v) = provided (data ''location'')"
    "Boolean (lat_lng v) = provided (data ''lat_lng'')"
    "Boolean (pano_id v) = provided (data ''pano_id'')"
    using metadata_selectors [OF assms] by (simp_all only: Boolean_provided)
  then show ?thesis
    by (simp add: locationMethods_def selectors_def)
qed

lemma street_view_count_rejected:
  assumes "selector_count args \<noteq> 1"
  shows "GetStreetViewSchema args = Inl ZodError"
proof (cases args)
  case None
  then show ?thesis
    by (simp add: GetStreetViewSchema_def GetStreetViewObject_def)
next
  case (Some data)
  show ?thesis
  proof (cases "GetStreetViewObject (Some data)")
    case None
    with Some show ?thesis
      by (simp add: GetStreetViewSchema_def)
  next
    case (Some v)
    with assms \<open>args = Some data\<close> street_view_locationMethods [OF Some] show ?thesis
      by (simp add: GetStreetViewSchema_def selector_count_def)
  qed
qed

lemma metadata_count_rejected:
  assumes "selector_count args \<noteq> 1"
  shows "GetMetadataSchema args = Inl ZodError"
proof (cases args)
  case None
  then show ?thesis
    by (simp add: GetMetadataSchema_def GetMetadataObject_def)
next
  case (Some data)
  show ?thesis
  proof (cases "GetMetadataObject (Some data)")
    case None
    with Some show ?thesis
      by (simp add: GetMetadataSchema_def)
  next
    case (Some v)
    with assms \<open>args = Some data\<close> metadata_locationMethods [OF Some] show ?thesis
      by (simp add: GetMetadataSchema_def selector_count_def)
  qed
qed

text \<open>
  A request may carry two selectors and still be served: with \<^verbatim>\<open>location\<close> the empty
  string and a panorama id, \<^verbatim>\<open>get_street_view\<close> sends its request for the panorama
  and succeeds.
\<close>

theorem selector_count_counterexample:
  "length (filter supplied (selectors empty_location_request)) = 2
   \<and> result_error (fst (get_street_view example_env (Some empty_location_request) empty_world)) = None
   \<and> map (\<lambda>ps. ps ''pano'')
       (sent (events empty_world
          (snd (get_street_view example_env (Some empty_location_request) empty_world))))
     = [Some (PStr ''abc'')]"
  by (simp add: empty_location_request_def supplied_def selectors_def get_street_view_def
      schema_defs street_view_body_def street_view_params_def io_defs set_location_def
      makeApiRequest_def sharp_toFile_def sharp_read_metadata_def example_defs events_def Let_def)

text \<open>
  Claim C1, amended. Count as provided the selectors among \<^verbatim>\<open>location\<close>,
  \<^verbatim>\<open>lat_lng\<close> and \<^verbatim>\<open>pano_id\<close> that the request has and that are not the empty
  string. When that count is not exactly 1 (none, two or three, or no arguments at all),
  \<^verbatim>\<open>get_street_view\<close> and \<^verbatim>\<open>get_metadata\<close> answer with the validation error and
  leave the world as it was: no request is sent.
\<close>

theorem selector_count_rejected:
  assumes "selector_count args \<noteq> 1"
  shows "get_street_view e args w = (ToolError ZodError, w)
       \<and> get_metadata e args w = (ToolError ZodError, w)
       \<and> kind_of ZodError = ValidationError"
  using assms
  by (simp add: get_street_view_def get_metadata_def street_view_count_rejected metadata_count_rejected)

theorem selector_count_rejected_witness:
  "get_street_view example_env (Some [''filename'' \<mapsto> JStr ''a.jpg'']) empty_world
     = (ToolError ZodError, empty_world)
   \<and> get_metadata example_env
       (Some [''location'' \<mapsto> JStr ''Rome'', ''pano_id'' \<mapsto> JStr ''abc'']) empty_world
     = (ToolError ZodError, empty_world)"
proof (intro conjI)
  show "get_street_view example_env (Some [''filename'' \<mapsto> JStr ''a.jpg'']) empty_world
     = (ToolError ZodError, empty_world)"
    by (rule selector_count_rejected [THEN conjunct1])
       (simp add: selector_count_def selectors_def provided_def)
  show "get_metadata example_env
       (Some [''location'' \<mapsto> JStr ''Rome'', ''pano_id'' \<mapsto> JStr ''abc'']) empty_world
     = (ToolError ZodError, empty_world)"
    by (rule selector_count_rejected [THEN conjunct2, THEN conjunct1])
       (simp add: selector_count_def selectors_def provided_def)
qed

text \<open>
  Claim C8. The count that both location schemas compare with 1 is the number of
  selectors that are there and are not the empty string. So a request with
  \<^verbatim>\<open>location\<close> the empty string and a non-empty \<^verbatim>\<open>lat_lng\<close> passes the check
  (whenever the fields themselves are well-formed), and a request whose only selector is
  the empty string counts none and is rejected.
\<close>

theorem empty_selector_counts_as_absent:
  "(\<forall>v. GetStreetViewObject (Some data) = Some v \<longrightarrow>
        locationMethods v = length (filter provided (selectors data)))
   \<and> (\<forall>v. GetMetadataObject (Some data) = Some v \<longrightarrow>
        locationMethods v = length (filter provided (selectors data)))
   \<and> (data ''location'' = Some (JStr []) \<and> data ''lat_lng'' = Some (JStr s) \<and> s \<noteq> []
        \<and> data ''pano_id'' = None \<longrightarrow>
        (\<forall>v. GetStreetViewObject (Some data) = Some v \<longrightarrow> GetStreetViewSchema (Some data) = Inr v)
      \<and> (\<forall>v. GetMetadataObject (Some data) = Some v \<longrightarrow> GetMetadataSchema (Some data) = Inr v))
   \<and> (filter supplied (selectors data) = [Some (JStr [])] \<longrightarrow>
        filter provided (selectors data) = []
      \<and> GetStreetViewSchema (Some data) = Inl ZodError
      \<and> GetMetadataSchema (Some data) = Inl ZodError)"
proof (intro conjI allI impI)
  fix v assume "GetStreetViewObject (Some data) = Some v"
  then show "locationMethods v = length (filter provided (selectors data))"
    by (rule street_view_locationMethods)
next
  fix v assume "GetMetadataObject (Some data) = Some v"
  then show "locationMethods v = length (filter provided (selectors data))"
    by (rule metadata_locationMethods)
next
  fix v
  assume d: "data ''location'' = Some (JStr []) \<and> data ''lat_lng'' = Some (JStr s) \<and> s \<noteq> []
        \<and> data ''pano_id'' = None"
    and v: "GetStreetViewObject (Some data) = Some v"
  from street_view_locationMethods [OF v] d have "locationMethods v = 1"
    by (simp add: selectors_def provided_def)
  with v show "GetStreetViewSchema (Some data) = Inr v"
    by (simp add: GetStreetViewSchema_def)
next
  fix v
  assume d: "data ''location'' = Some (JStr []) \<and> data ''lat_lng'' = Some (JStr s) \<and> s \<noteq> []
        \<and> data ''pano_id'' = None"
    and v: "GetMetadataObject (Some data) = Some v"
  from metadata_locationMethods [OF v] d have "locationMethods v = 1"
    by (simp add: selectors_def provided_def)
  with v show "GetMetadataSchema (Some data) = Inr v"
    by (simp add: GetMetadataSchema_def)
next
  assume a: "filter supplied (selectors data) = [Some (JStr [])]"
  have sub: "filter provided (selectors data) = filter provided (filter supplied (selectors data))"
    by (auto simp: provided_def supplied_def intro: filter_cong)
  show none: "filter provided (selectors data) = []"
    by (simp add: sub a provided_def)
  then have "selector_count (Some data) \<noteq> 1"
    by (simp add: selector_count_def)
  then show "GetStreetViewSchema (Some data) = Inl ZodError" "GetMetadataSchema (Some data) = Inl ZodError"
    by (rule street_view_count_rejected, rule metadata_count_rejected)
qed


theorem empty_selector_counts_as_absent_witness:
  "GetStreetViewSchema
     (Some [''filename'' \<mapsto> JStr ''a.jpg'', ''location'' \<mapsto> JStr '''',
            ''lat_lng'' \<mapsto> JStr ''40.7,-74.0''])
   = Inr \<lparr> location = Some [], lat_lng = Some ''40.7,-74.0'', pano_id = None,
           radius = Finite 50, source = ''default'', filename = ''a.jpg'',
           size_str = ''600x400'', heading = Finite 0, pitch = Finite 0, fov = Finite 90 \<rparr>
   \<and> GetMetadataSchema (Some [''location'' \<mapsto> JStr '''']) = Inl ZodError"
proof
  let ?d = "[''filename'' \<mapsto> JStr ''a.jpg'', ''location'' \<mapsto> JStr '''',
            ''lat_lng'' \<mapsto> JStr ''40.7,-74.0'']"
  let ?v = "\<lparr> location = Some [], lat_lng = Some ''40.7,-74.0'', pano_id = None,
           radius = Finite 50, source = ''default'', filename = ''a.jpg'',
           size_str = ''600x400'', heading = Finite 0, pitch = Finite 0, fov = Finite 90 \<rparr>"
  have obj: "GetStreetViewObject (Some ?d) = Some ?v"
    by (simp add: GetStreetViewObject_def z_string_min_def z_optional_def z_optional_default_def)
  have sel: "?d ''location'' = Some (JStr []) \<and> ?d ''lat_lng'' = Some (JStr ''40.7,-74.0'')
      \<and> ''40.7,-74.0'' \<noteq> [] \<and> ?d ''pano_id'' = None"
    by simp
  from empty_selector_counts_as_absent [of ?d "''40.7,-74.0''"] sel obj
  show "GetStreetViewSchema (Some ?d) = Inr ?v"
    by blast
  have "filter supplied (selectors [''location'' \<mapsto> JStr '''']) = [Some (JStr [])]"
    by (simp add: supplied_def selectors_def)
  with empty_selector_counts_as_absent [of "[''location'' \<mapsto> JStr '''']"]
  show "GetMetadataSchema (Some [''location'' \<mapsto> JStr '''']) = Inl ZodError"
    by blast
qed

section \<open>Requests\<close>

lemma yieldsI: "(\<And>w. \<exists>evs. trace (snd (m w)) = trace w @ evs \<and> P (fst (m w)) evs) \<Longrightarrow> yields m P"
  by (simp add: yields_def)

lemma yieldsD: "yields m P \<Longrightarrow> \<exists>evs. trace (snd (m w)) = trace w @ evs \<and> P (fst (m w)) evs"
  by (simp add: yields_def)

lemma yields_events: "yields m P \<Longrightarrow> P (fst (m w)) (events w (snd (m w)))"
  by (auto simp: events_def dest: yieldsD [where w = w])

lemma yields_weaken: "yields m P \<Longrightarrow> (\<And>r evs. P r evs \<Longrightarrow> Q r evs) \<Longrightarrow> yields m Q"
  unfolding yields_def by blast

lemma yields_return: "P (Inr x) [] \<Longrightarrow> yields (io_return x) P"
  by (simp add: yields_def io_return_def)

lemma yields_throw: "P (Inl err) [] \<Longrightarrow> yields (io_throw err) P"
  by (simp add: yields_def io_throw_def)

lemma yields_bind:
  assumes m: "yields m P"
    and f: "\<And>x. yields (f x) (Q x)"
    and l: "\<And>err a. P (Inl err) a \<Longrightarrow> R (Inl err) a"
    and r: "\<And>x a res b. P (Inr x) a \<Longrightarrow> Q x res b \<Longrightarrow> R res (a @ b)"
  shows "yields (io_bind m f) R"
proof (rule yieldsI)
  fix w
  from m obtain a where a: "trace (snd (m w)) = trace w @ a" "P (fst (m w)) a"
    unfolding yields_def by blast
  show "\<exists>evs. trace (snd (io_bind m f w)) = trace w @ evs \<and> R (fst (io_bind m f w)) evs"
  proof (cases "m w")
    case (Pair res w1)
    show ?thesis
    proof (cases res)
      case (Inl err)
      with Pair a l show ?thesis by (auto simp: io_bind_def)
    next
      case (Inr x)
      from f obtain b where b: "trace (snd (f x w1)) = trace w1 @ b" "Q x (fst (f x w1)) b"
        unfolding yields_def by blast
      with Pair Inr a r [of x a "fst (f x w1)" b] show ?thesis
        by (auto simp: io_bind_def)
    qed
  qed
qed

lemma yields_catch:
  assumes m: "yields m P"
    and h: "\<And>err. yields (h err) (Q err)"
    and r: "\<And>x a. P (Inr x) a \<Longrightarrow> R (Inr x) a"
    and l: "\<And>err a res b. P (Inl err) a \<Longrightarrow> Q err res b \<Longrightarrow> R res (a @ b)"
  shows "yields (io_catch m h) R"
proof (rule yieldsI)
  fix w
  from m obtain a where a: "trace (snd (m w)) = trace w @ a" "P (fst (m w)) a"
    unfolding yields_def by blast
  show "\<exists>evs. trace (snd (io_catch m h w)) = trace w @ evs \<and> R (fst (io_catch m h w)) evs"
  proof (cases "m w")
    case (Pair res w1)
    show ?thesis
    proof (cases res)
      case (Inr x)
      with Pair a r show ?thesis by (auto simp: io_catch_def)
    next
      case (Inl err)
      from h obtain b where b: "trace (snd (h err w1)) = trace w1 @ b" "Q err (fst (h err w1)) b"
        unfolding yields_def by blast
      with Pair Inl a l [of err a "fst (h err w1)" b] show ?thesis
        by (auto simp: io_catch_def)
    qed
  qed
qed

lemma yields_access: "yields (access p) (\<lambda>r evs. evs = [Access p])"
  by (rule yieldsI) (simp add: access_def emit_def split: option.splits)

lemma yields_mkdir: "yields (mkdir p) (\<lambda>r evs. evs = [Mkdir p])"
  by (rule yieldsI) (simp add: mkdir_def emit_def split: sum.splits)

lemma yields_writeFile: "yields (writeFile p d) (\<lambda>r evs. evs = [WriteFile p])"
  by (rule yieldsI) (simp add: writeFile_def emit_def split: sum.splits)

lemma yields_stat: "yields (stat p) (\<lambda>r evs. evs = [Stat p])"
  by (rule yieldsI) (simp add: stat_def emit_def split: sum.splits)

lemma yields_readdir: "yields (readdir p) (\<lambda>r evs. evs = [Readdir p])"
  by (rule yieldsI) (simp add: readdir_def emit_def split: sum.splits)

lemma yields_sharp_read_metadata: "yields (sharp_read_metadata e p) (\<lambda>r evs. evs = [ReadImage p])"
  by (rule yieldsI) (simp add: sharp_read_metadata_def emit_def split: option.splits)

lemma quiet_return: "quiet (io_return x)"
  unfolding quiet_def by (rule yields_return) simp

lemma quiet_throw: "quiet (io_throw err)"
  unfolding quiet_def by (rule yields_throw) simp

lemma quiet_bind: "quiet m \<Longrightarrow> (\<And>x. quiet (f x)) \<Longrightarrow> quiet (io_bind m f)"
  unfolding quiet_def by (erule yields_bind) auto

lemma quiet_catch: "quiet m \<Longrightarrow> (\<And>err. quiet (h err)) \<Longrightarrow> quiet (io_catch m h)"
  unfolding quiet_def by (erule yields_catch) auto

lemma quiet_if: "quiet a \<Longrightarrow> quiet b \<Longrightarrow> quiet (if c then a else b)"
  by simp

lemma quiet_fs:
  "quiet (access p)" "quiet (mkdir p)" "quiet (writeFile p d)" "quiet (stat p)"
  "quiet (readdir p)" "quiet (sharp_read_metadata e p)"
  unfolding quiet_def
  by (auto intro: yields_weaken [OF yields_access] yields_weaken [OF yields_mkdir]
      yields_weaken [OF yields_writeFile] yields_weaken [OF yields_stat]
      yields_weaken [OF yields_readdir] yields_weaken [OF yields_sharp_read_metadata])

lemma quiet_sharp_toFile: "quiet (sharp_toFile e b p)"
  unfolding sharp_toFile_def by (cases "sharp_jpeg e b") (simp_all add: quiet_throw quiet_fs)

lemma quiet_io_lift: "quiet (io_lift r)"
  unfolding io_lift_def by (cases r) (simp_all add: quiet_throw quiet_return)

lemmas quiet_intros = quiet_bind quiet_catch quiet_if quiet_return quiet_throw quiet_fs
  quiet_sharp_toFile quiet_io_lift

lemma quiet_ensureDirectoryExists: "quiet (ensureDirectoryExists dir)"
  unfolding ensureDirectoryExists_def by (intro quiet_intros)

lemma quiet_ensure_absent: "quiet (ensure_absent p err)"
  unfolding ensure_absent_def by (intro quiet_intros)

text \<open>After quiet steps, a computation sends what its continuation sends.\<close>

lemma quiet_then:
  assumes "quiet m" and "\<And>x. yields (f x) (\<lambda>r evs. S r (sent evs))" and "\<And>err. S (Inl err) []"
  shows "yields (io_bind m f) (\<lambda>r evs. S r (sent evs))"
  using assms(1) [unfolded quiet_def] assms(2)
  by (rule yields_bind) (auto simp: assms(3))

lemma yields_makeApiRequest:
  "yields (makeApiRequest e url ps)
     (\<lambda>r evs. one_request (ps(''key'' \<mapsto> PStr (the (GOOGLE_API_KEY e)))) r (sent evs))"
  by (rule yieldsI)
     (simp add: makeApiRequest_def io_throw_def emit_def Let_def one_request_def
        split: axios_result.splits)

lemma yields_makeMetadataRequest:
  "yields (makeMetadataRequest e url ps)
     (\<lambda>r evs. one_request (ps(''key'' \<mapsto> PStr (the (GOOGLE_API_KEY e)))) r (sent evs))"
  by (rule yieldsI)
     (simp add: makeMetadataRequest_def io_throw_def emit_def Let_def one_request_def
        split: axios_result.splits)

lemma request_then_quiet:
  assumes "yields m (\<lambda>r evs. one_request ps r (sent evs))" and "\<And>x. quiet (f x)"
  shows "yields (io_bind m f) (\<lambda>r evs. one_request ps r (sent evs))"
  using assms(1) assms(2) [unfolded quiet_def]
  by (rule yields_bind) (auto simp: one_request_def)

lemma io_bind_return [simp]: "io_bind (io_return x) f = f x"
  by (simp add: io_bind_def io_return_def)

lemma io_bind_throw [simp]: "io_bind (io_throw err) f = io_throw err"
  by (simp add: io_bind_def io_throw_def)

lemma io_lift_simps [simp]: "io_lift (Inl err) = io_throw err" "io_lift (Inr x) = io_return x"
  by (simp_all add: io_lift_def)

lemma requests_of_throw: "yields (io_throw err) (\<lambda>r evs. requests_of e loc r (sent evs))"
  by (rule yields_throw) (simp add: requests_of_def one_request_def split: sum.splits)

lemma metadata_body_requests:
  "yields (metadata_body e v)
     (\<lambda>r evs. requests_of e (set_location v (metadata_params v)) r (sent evs))"
proof (cases "set_location v (metadata_params v)")
  case (Inl err)
  then show ?thesis
    by (simp add: metadata_body_def requests_of_throw [where loc = "Inl err", simplified])
next
  case (Inr ps)
  then show ?thesis
    by (simp add: metadata_body_def requests_of_def split del: if_split)
       (intro request_then_quiet yields_makeMetadataRequest quiet_intros)
qed

lemma street_view_body_requests:
  "yields (street_view_body e v)
     (\<lambda>r evs. requests_of e (set_location v (street_view_params v)) r (sent evs))"
proof -
  have rest: "yields
       (io_bind (io_lift (set_location v (street_view_params v))) f)
       (\<lambda>r evs. requests_of e (set_location v (street_view_params v)) r (sent evs))"
    if "\<And>ps. f ps = io_bind (makeApiRequest e BASE_URL ps) (g ps)" and "\<And>ps x. quiet (g ps x)"
    for f :: "params \<Rightarrow> payload io" and g
  proof (cases "set_location v (street_view_params v)")
    case (Inl err)
    then show ?thesis
      by (simp add: requests_of_throw [where loc = "Inl err", simplified])
  next
    case (Inr ps)
    then show ?thesis
      by (simp add: requests_of_def that(1))
         (intro request_then_quiet yields_makeApiRequest that(2))
  qed
  show ?thesis
    unfolding street_view_body_def Let_def
    apply (rule quiet_then [OF quiet_ensureDirectoryExists])
     apply (rule quiet_then [OF quiet_ensure_absent])
      apply (rule rest)
       apply (rule refl)
      apply (intro quiet_intros)
     apply (simp_all add: requests_of_def one_request_def split: sum.splits)
    done
qed

lemma set_location_radius:
  assumes "set_location v ps = Inr ps'" and "locationMethods v = 1"
  shows "ps' ''radius'' = (if Boolean (pano_id v) then None else ps ''radius'')"
  using assms by (auto simp: set_location_def locationMethods_def split: if_splits sum.splits prod.splits)

lemma GetStreetViewSchema_Inr:
  "GetStreetViewSchema args = Inr v \<Longrightarrow> GetStreetViewObject args = Some v \<and> locationMethods v = 1"
  by (auto simp: GetStreetViewSchema_def split: option.splits if_splits)

lemma GetMetadataSchema_Inr:
  "GetMetadataSchema args = Inr v \<Longrightarrow> GetMetadataObject args = Some v \<and> locationMethods v = 1"
  by (auto simp: GetMetadataSchema_def split: option.splits if_splits)

lemma finish_fst: "fst (finish pre m w) = (case fst (m w) of Inl err \<Rightarrow> HandlerError pre err | Inr p \<Rightarrow> ToolSuccess p)"
  by (simp add: finish_def split: prod.splits sum.splits)

lemma finish_snd [simp]: "snd (finish pre m w) = snd (m w)"
  by (simp add: finish_def split: prod.splits sum.splits)

lemma params_radius:
  "street_view_params v ''radius'' = Some (PNum (radius v))"
  "metadata_params u ''radius'' = Some (PNum (radius u))"
  by (simp_all add: street_view_params_def metadata_params_def)

lemma requests_of_radius:
  assumes "requests_of e (set_location v ps) r reqs" and "locationMethods v = 1"
  shows "list_all (\<lambda>q. q ''radius'' = (if Boolean (pano_id v) then None else ps ''radius'')) reqs
         \<and> (\<not> isl r \<longrightarrow> length reqs = 1)"
  using assms set_location_radius [of v ps]
  by (auto simp: requests_of_def one_request_def split: sum.splits)

lemma yields_makeApiRequest_key:
  "Boolean (GOOGLE_API_KEY e) \<Longrightarrow> yields (makeApiRequest e url ps)
     (\<lambda>r evs. sent evs = [ps(''key'' \<mapsto> PStr (the (GOOGLE_API_KEY e)))])"
  by (rule yieldsI)
     (simp add: makeApiRequest_def emit_def Let_def split: axios_result.splits)

lemma yields_makeMetadataRequest_key:
  "Boolean (GOOGLE_API_KEY e) \<Longrightarrow> yields (makeMetadataRequest e url ps)
     (\<lambda>r evs. sent evs = [ps(''key'' \<mapsto> PStr (the (GOOGLE_API_KEY e)))])"
  by (rule yieldsI)
     (simp add: makeMetadataRequest_def emit_def Let_def split: axios_result.splits)

lemma sends_then_quiet:
  assumes "yields m (\<lambda>r evs. sent evs = [ps])" and "\<And>x. quiet (f x)"
  shows "yields (io_bind m f) (\<lambda>r evs. sent evs = [ps])"
  using assms(1) assms(2) [unfolded quiet_def]
  by (rule yields_bind) auto

lemma metadata_body_sends:
  assumes "Boolean (GOOGLE_API_KEY e)" and "set_location v (metadata_params v) = Inr ps"
  shows "sent (events w (snd (metadata_body e v w))) = [ps(''key'' \<mapsto> PStr (the (GOOGLE_API_KEY e)))]"
proof -
  have "yields (metadata_body e v) (\<lambda>r evs. sent evs = [ps(''key'' \<mapsto> PStr (the (GOOGLE_API_KEY e)))])"
    using assms(2)
    by (simp add: metadata_body_def split del: if_split)
       (intro sends_then_quiet yields_makeMetadataRequest_key assms(1) quiet_intros)
  then show ?thesis
    by (rule yields_events)
qed

lemma ensure_dir_succeeds:
  assumes "faulty (fs w) dir = None"
  shows "\<exists>w1 evs. ensureDirectoryExists dir w = (Inr (), w1)
     \<and> trace w1 = trace w @ evs \<and> sent evs = []
     \<and> faulty (fs w1) = faulty (fs w)
     \<and> (\<forall>p. p \<noteq> dir \<longrightarrow> map_of (entries (fs w1)) p = map_of (entries (fs w)) p)"
proof -
  from quiet_ensureDirectoryExists [of dir, unfolded quiet_def, THEN yieldsD, of w]
  obtain evs where evs: "trace (snd (ensureDirectoryExists dir w)) = trace w @ evs" "sent evs = []"
    by blast
  have "fst (ensureDirectoryExists dir w) = Inr ()
     \<and> faulty (fs (snd (ensureDirectoryExists dir w))) = faulty (fs w)
     \<and> (\<forall>p. p \<noteq> dir \<longrightarrow> map_of (entries (fs (snd (ensureDirectoryExists dir w)))) p = map_of (entries (fs w)) p)"
    using assms
    by (cases "map_of (entries (fs w)) dir") (auto simp: io_defs map_add_def split: option.splits)
  with evs show ?thesis
    by (intro exI [of _ "snd (ensureDirectoryExists dir w)"] exI [of _ evs]) (simp add: prod_eq_iff)
qed

lemma street_view_body_sends:
  assumes key: "Boolean (GOOGLE_API_KEY e)"
    and loc: "set_location v (street_view_params v) = Inr ps"
    and dir: "faulty (fs w) (OUTPUT_DIR e) = None"
    and free: "fs_access (fs w) (join (OUTPUT_DIR e) (filename v)) = Some ENOENT"
  shows "sent (events w (snd (street_view_body e v w))) = [ps(''key'' \<mapsto> PStr (the (GOOGLE_API_KEY e)))]"
proof -
  let ?t = "join (OUTPUT_DIR e) (filename v)"
  let ?q = "ps(''key'' \<mapsto> PStr (the (GOOGLE_API_KEY e)))"
  define rest where "rest = (\<lambda>u :: unit.
     io_bind (io_lift (set_location v (street_view_params v))) (\<lambda>ps.
     io_bind (makeApiRequest e BASE_URL ps) (\<lambda>imageBuffer.
     io_bind (sharp_toFile e imageBuffer ?t) (\<lambda>_.
     io_bind (sharp_read_metadata e ?t) (\<lambda>metadata.
     io_bind (stat ?t) (\<lambda>st.
     io_return (StreetViewSaved (filename v) ?t metadata (kilobytes (st_size st))
       ([''size'' \<mapsto> PStr (size_str v), ''heading'' \<mapsto> PNum (heading v),
         ''pitch'' \<mapsto> PNum (pitch v), ''fov'' \<mapsto> PNum (fov v),
         ''source'' \<mapsto> PStr (source v)]
         (''location'' := map_option PStr (or_else (location v) (or_else (lat_lng v) (pano_id v))),
          ''radius'' := (if Boolean (pano_id v) then None else Some (PNum (radius v))))))))))))"
  have body: "street_view_body e v =
     io_bind (ensureDirectoryExists (OUTPUT_DIR e)) (\<lambda>_. io_bind (ensure_absent ?t (FileExists (filename v))) rest)"
    by (simp add: street_view_body_def rest_def Let_def)
  have rest: "yields (rest u) (\<lambda>r evs. sent evs = [?q])" for u
    unfolding rest_def using loc
    by (simp split del: if_split) (intro sends_then_quiet yields_makeApiRequest_key key quiet_intros)
  from ensure_dir_succeeds [OF dir] obtain w1 evs1 where
    w1: "ensureDirectoryExists (OUTPUT_DIR e) w = (Inr (), w1)"
      "trace w1 = trace w @ evs1" "sent evs1 = []"
      "faulty (fs w1) = faulty (fs w)"
      "\<forall>p. p \<noteq> OUTPUT_DIR e \<longrightarrow> map_of (entries (fs w1)) p = map_of (entries (fs w)) p"
    by blast
  have same: "map_of (entries (fs w1)) ?t = map_of (entries (fs w)) ?t"
    using w1(5) by simp
  have "fs_access (fs w1) ?t = fs_access (fs w) ?t"
    unfolding fs_access_def same w1(4) by (rule refl)
  with free have "fs_access (fs w1) ?t = Some ENOENT"
    by simp
  then have absent: "ensure_absent ?t (FileExists (filename v)) w1 = (Inr (), emit (Access ?t) w1)"
    by (simp add: ensure_absent_def io_catch_def io_bind_def access_def io_throw_def io_return_def)
  from yieldsD [OF rest, of "()" "emit (Access ?t) w1"] obtain evs3 where
    evs3: "trace (snd (rest () (emit (Access ?t) w1))) = trace (emit (Access ?t) w1) @ evs3"
      "sent evs3 = [?q]"
    by blast
  have "street_view_body e v w = rest () (emit (Access ?t) w1)"
    by (simp add: body io_bind_def w1(1) absent)
  with evs3 w1(2,3) show ?thesis
    by (simp add: events_def emit_def)
qed

text \<open>
  Claim C4. For a validated request, every parameter set that \<^verbatim>\<open>get_street_view\<close> or
  \<^verbatim>\<open>get_metadata\<close> sends upstream has no \<^verbatim>\<open>radius\<close> when the panorama id is the
  selector, and has the radius of the request (50 when the request names none) when the
  address or the coordinates are; and a call that succeeds has sent exactly one. And the
  request is sent: with an API key in the environment and a location that
  \<^verbatim>\<open>set_location\<close> turns into parameters (an address, a panorama id, coordinates that
  parse), \<^verbatim>\<open>get_metadata\<close> sends exactly one request, these parameters with the key
  added, whatever the upstream answers; \<^verbatim>\<open>get_street_view\<close> does so when the operating
  system does not refuse the output directory and finds nothing at the target path.
\<close>

theorem radius_omitted_for_panorama:
  "(\<forall>v. GetStreetViewSchema args = Inr v \<longrightarrow>
      list_all (\<lambda>ps. ps ''radius'' = (if Boolean (pano_id v) then None else Some (PNum (radius v))))
        (sent (events w (snd (get_street_view e args w))))
      \<and> ((\<exists>p. fst (get_street_view e args w) = ToolSuccess p) \<longrightarrow>
           length (sent (events w (snd (get_street_view e args w)))) = 1)
      \<and> (\<forall>ps. Boolean (GOOGLE_API_KEY e) \<and> set_location v (street_view_params v) = Inr ps
             \<and> faulty (fs w) (OUTPUT_DIR e) = None
             \<and> fs_access (fs w) (join (OUTPUT_DIR e) (filename v)) = Some ENOENT \<longrightarrow>
           sent (events w (snd (get_street_view e args w)))
             = [ps(''key'' \<mapsto> PStr (the (GOOGLE_API_KEY e)))]
           \<and> ps ''radius'' = (if Boolean (pano_id v) then None else Some (PNum (radius v)))))
   \<and> (\<forall>v. GetMetadataSchema args = Inr v \<longrightarrow>
      list_all (\<lambda>ps. ps ''radius'' = (if Boolean (pano_id v) then None else Some (PNum (radius v))))
        (sent (events w (snd (get_metadata e args w))))
      \<and> ((\<exists>p. fst (get_metadata e args w) = ToolSuccess p) \<longrightarrow>
           length (sent (events w (snd (get_metadata e args w)))) = 1)
      \<and> (\<forall>ps. Boolean (GOOGLE_API_KEY e) \<and> set_location v (metadata_params v) = Inr ps \<longrightarrow>
           sent (events w (snd (get_metadata e args w)))
             = [ps(''key'' \<mapsto> PStr (the (GOOGLE_API_KEY e)))]
           \<and> ps ''radius'' = (if Boolean (pano_id v) then None else Some (PNum (radius v)))))"
proof (intro conjI allI impI)
  fix v assume v: "GetStreetViewSchema args = Inr v"
  then have one: "locationMethods v = 1"
    by (simp add: GetStreetViewSchema_Inr)
  let ?w' = "snd (street_view_body e v w)"
  have "requests_of e (set_location v (street_view_params v)) (fst (street_view_body e v w))
          (sent (events w ?w'))"
    using street_view_body_requests by (rule yields_events)
  from requests_of_radius [OF this one, unfolded params_radius]
  have *: "list_all (\<lambda>q. q ''radius'' = (if Boolean (pano_id v) then None else Some (PNum (radius v))))
          (sent (events w ?w'))" "\<not> isl (fst (street_view_body e v w)) \<longrightarrow> length (sent (events w ?w')) = 1"
    by simp_all
  from *(1) v show "list_all (\<lambda>ps. ps ''radius'' = (if Boolean (pano_id v) then None else Some (PNum (radius v))))
        (sent (events w (snd (get_street_view e args w))))"
    by (simp add: get_street_view_def)
  {
    assume "\<exists>p. fst (get_street_view e args w) = ToolSuccess p"
    with v have "\<not> isl (fst (street_view_body e v w))"
      by (auto simp: get_street_view_def finish_fst split: sum.splits)
    with *(2) v show "length (sent (events w (snd (get_street_view e args w)))) = 1"
      by (simp add: get_street_view_def)
  }
  fix ps
  assume a: "Boolean (GOOGLE_API_KEY e) \<and> set_location v (street_view_params v) = Inr ps
             \<and> faulty (fs w) (OUTPUT_DIR e) = None
             \<and> fs_access (fs w) (join (OUTPUT_DIR e) (filename v)) = Some ENOENT"
  then have "sent (events w ?w') = [ps(''key'' \<mapsto> PStr (the (GOOGLE_API_KEY e)))]"
    by (intro street_view_body_sends) simp_all
  with v show "sent (events w (snd (get_street_view e args w)))
             = [ps(''key'' \<mapsto> PStr (the (GOOGLE_API_KEY e)))]"
    by (simp add: get_street_view_def)
  from a set_location_radius [OF _ one, of "street_view_params v" ps]
  show "ps ''radius'' = (if Boolean (pano_id v) then None else Some (PNum (radius v)))"
    by (simp add: params_radius)
next
  fix v assume v: "GetMetadataSchema args = Inr v"
  then have one: "locationMethods v = 1"
    by (simp add: GetMetadataSchema_Inr)
  let ?w' = "snd (metadata_body e v w)"
  have "requests_of e (set_location v (metadata_params v)) (fst (metadata_body e v w))
          (sent (events w ?w'))"
    using metadata_body_requests by (rule yields_events)
  from requests_of_radius [OF this one, unfolded params_radius]
  have *: "list_all (\<lambda>q. q ''radius'' = (if Boolean (pano_id v) then None else Some (PNum (radius v))))
          (sent (events w ?w'))" "\<not> isl (fst (metadata_body e v w)) \<longrightarrow> length (sent (events w ?w')) = 1"
    by simp_all
  from *(1) v show "list_all (\<lambda>ps. ps ''radius'' = (if Boolean (pano_id v) then None else Some (PNum (radius v))))
        (sent (events w (snd (get_metadata e args w))))"
    by (simp add: get_metadata_def)
  {
    assume "\<exists>p. fst (get_metadata e args w) = ToolSuccess p"
    with v have "\<not> isl (fst (metadata_body e v w))"
      by (auto simp: get_metadata_def finish_fst split: sum.splits)
    with *(2) v show "length (sent (events w (snd (get_metadata e args w)))) = 1"
      by (simp add: get_metadata_def)
  }
  fix ps
  assume a: "Boolean (GOOGLE_API_KEY e) \<and> set_location v (metadata_params v) = Inr ps"
  then have "sent (events w ?w') = [ps(''key'' \<mapsto> PStr (the (GOOGLE_API_KEY e)))]"
    by (intro metadata_body_sends) simp_all
  with v show "sent (events w (snd (get_metadata e args w)))
             = [ps(''key'' \<mapsto> PStr (the (GOOGLE_API_KEY e)))]"
    by (simp add: get_metadata_def)
  from a set_location_radius [OF _ one, of "metadata_params v" ps]
  show "ps ''radius'' = (if Boolean (pano_id v) then None else Some (PNum (radius v)))"
    by (simp add: params_radius)
qed


lemma parseLatLng_coordinates: "parseLatLng ''40.7,-74.0'' = Inr (Finite (407 / 10), Finite (- 74))"
  by code_simp

theorem radius_omitted_for_panorama_witness:
  "map (\<lambda>ps. ps ''radius'')
     (sent (events empty_world (snd (get_street_view example_env (Some panorama_request) empty_world))))
     = [None]
   \<and> map (\<lambda>ps. ps ''radius'')
     (sent (events empty_world (snd (get_street_view example_env (Some address_request) empty_world))))
     = [Some (PNum (Finite 50))]
   \<and> map (\<lambda>ps. ps ''radius'')
     (sent (events empty_world (snd (get_metadata example_env (Some panorama_request) empty_world))))
     = [None]
   \<and> map (\<lambda>ps. ps ''radius'')
     (sent (events empty_world (snd (get_metadata example_env (Some address_request) empty_world))))
     = [Some (PNum (Finite 50))]
   \<and> map (\<lambda>ps. (ps ''location'', ps ''radius''))
     (sent (events empty_world (snd (get_metadata example_env (Some coordinates_request) empty_world))))
     = [(Some (PLatLng (Finite (407 / 10)) (Finite (- 74))), Some (PNum (Finite 50)))]"
proof (intro conjI)
  let ?key = "Boolean (GOOGLE_API_KEY example_env)"
  have key: ?key
    by (simp add: example_env_def)
  have dir: "faulty (fs empty_world) (OUTPUT_DIR example_env) = None"
    by (simp add: example_defs)
  have free: "fs_access (fs empty_world) (join (OUTPUT_DIR example_env) ''a.jpg'') = Some ENOENT"
    by (simp add: example_defs fs_access_def)
  {
    let ?v = "\<lparr> location = None, lat_lng = None, pano_id = Some ''abc'',
           radius = Finite 50, source = ''default'', filename = ''a.jpg'',
           size_str = ''600x400'', heading = Finite 0, pitch = Finite 0, fov = Finite 90 \<rparr>"
    have v: "GetStreetViewSchema (Some panorama_request) = Inr ?v"
      by (simp add: panorama_request_def schema_defs)
    obtain ps where ps: "set_location ?v (street_view_params ?v) = Inr ps"
      by (simp add: set_location_def)
    from radius_omitted_for_panorama [where args = "Some panorama_request" and w = empty_world
        and e = example_env, THEN conjunct1, rule_format, OF v, THEN conjunct2, THEN conjunct2,
        rule_format, of ps] key ps dir free
    show "map (\<lambda>ps. ps ''radius'')
       (sent (events empty_world (snd (get_street_view example_env (Some panorama_request) empty_world))))
       = [None]"
      by simp
  }
  {
    let ?v = "\<lparr> location = Some ''Rome'', lat_lng = None, pano_id = None,
           radius = Finite 50, source = ''default'', filename = ''a.jpg'',
           size_str = ''600x400'', heading = Finite 0, pitch = Finite 0, fov = Finite 90 \<rparr>"
    have v: "GetStreetViewSchema (Some address_request) = Inr ?v"
      by (simp add: address_request_def schema_defs)
    obtain ps where ps: "set_location ?v (street_view_params ?v) = Inr ps"
      by (simp add: set_location_def)
    from radius_omitted_for_panorama [where args = "Some address_request" and w = empty_world
        and e = example_env, THEN conjunct1, rule_format, OF v, THEN conjunct2, THEN conjunct2,
        rule_format, of ps] key ps dir free
    show "map (\<lambda>ps. ps ''radius'')
       (sent (events empty_world (snd (get_street_view example_env (Some address_request) empty_world))))
       = [Some (PNum (Finite 50))]"
      by simp
  }
  {
    let ?v = "\<lparr> location = None, lat_lng = None, pano_id = Some ''abc'',
           radius = Finite 50, source = ''default'' \<rparr>"
    have v: "GetMetadataSchema (Some panorama_request) = Inr ?v"
      by (simp add: panorama_request_def schema_defs)
    obtain ps where ps: "set_location ?v (metadata_params ?v) = Inr ps"
      by (simp add: set_location_def)
    from radius_omitted_for_panorama [where args = "Some panorama_request" and w = empty_world
        and e = example_env, THEN conjunct2, rule_format, OF v, THEN conjunct2, THEN conjunct2,
        rule_format, of ps] key ps
    show "map (\<lambda>ps. ps ''radius'')
       (sent (events empty_world (snd (get_metadata example_env (Some panorama_request) empty_world))))
       = [None]"
      by simp
  }
  {
    let ?v = "\<lparr> location = Some ''Rome'', lat_lng = None, pano_id = None,
           radius = Finite 50, source = ''default'' \<rparr>"
    have v: "GetMetadataSchema (Some address_request) = Inr ?v"
      by (simp add: address_request_def schema_defs)
    obtain ps where ps: "set_location ?v (metadata_params ?v) = Inr ps"
      by (simp add: set_location_def)
    from radius_omitted_for_panorama [where args = "Some address_request" and w = empty_world
        and e = example_env, THEN conjunct2, rule_format, OF v, THEN conjunct2, THEN conjunct2,
        rule_format, of ps] key ps
    show "map (\<lambda>ps. ps ''radius'')
       (sent (events empty_world (snd (get_metadata example_env (Some address_request) empty_world))))
       = [Some (PNum (Finite 50))]"
      by simp
  }
  {
    let ?v = "\<lparr> location = None, lat_lng = Some ''40.7,-74.0'', pano_id = None,
           radius = Finite 50, source = ''default'' \<rparr>"
    let ?ps = "(metadata_params ?v)(''location'' \<mapsto> PLatLng (Finite (407 / 10)) (Finite (- 74)))"
    have v: "GetMetadataSchema (Some coordinates_request) = Inr ?v"
      by (simp add: coordinates_request_def schema_defs)
    have ps: "set_location ?v (metadata_params ?v) = Inr ?ps"
      by (simp add: set_location_def parseLatLng_coordinates)
    from radius_omitted_for_panorama [where args = "Some coordinates_request" and w = empty_world
        and e = example_env, THEN conjunct2, rule_format, OF v, THEN conjunct2, THEN conjunct2,
        rule_format, of ?ps] key ps
    show "map (\<lambda>ps. (ps ''location'', ps ''radius''))
       (sent (events empty_world (snd (get_metadata example_env (Some coordinates_request) empty_world))))
       = [(Some (PLatLng (Finite (407 / 10)) (Finite (- 74))), Some (PNum (Finite 50)))]"
      by (simp add: metadata_params_def)
  }
qed

section \<open>Validation and I/O\<close>

lemma schema_errors:
  "GetStreetViewSchema args = Inl err \<Longrightarrow> err = ZodError"
  "GetMetadataSchema args = Inl err \<Longrightarrow> err = ZodError"
  "CreateHtmlPageSchema args = Inl err \<Longrightarrow> err = ZodError"
  by (auto simp: GetStreetViewSchema_def GetMetadataSchema_def CreateHtmlPageSchema_def
      split: option.splits if_splits)

lemma parseLatLng_error: "parseLatLng s = Inl err \<Longrightarrow> err = InvalidLatLng"
  by (auto simp: parseLatLng_def split: list.splits if_splits)

lemma only_lat_lng:
  "locationMethods v = 1 \<Longrightarrow> Boolean (lat_lng v) \<Longrightarrow> \<not> Boolean (location v)"
  by (auto simp: locationMethods_def split: if_splits)

lemma set_location_lat_lng:
  assumes "locationMethods v = 1" and "lat_lng v = Some s" and "s \<noteq> []"
    and "parseLatLng s = Inl err"
  shows "set_location v ps = Inl err"
  using assms only_lat_lng [of v] by (simp add: set_location_def)

text \<open>
  A \<^verbatim>\<open>lat_lng\<close> that is no pair of numbers passes the schema of
  \<^verbatim>\<open>get_street_view\<close>; it is refused by \<^verbatim>\<open>parseLatLng\<close> only after the output
  directory has been looked for and created and the target path has been probed.
\<close>

theorem lat_lng_rejected_after_io:
  "fst (get_street_view example_env (Some malformed_lat_lng_request) empty_world)
     = HandlerError ''Street View image fetch failed: '' InvalidLatLng
   \<and> kind_of InvalidLatLng = ValidationError
   \<and> trace (snd (get_street_view example_env (Some malformed_lat_lng_request) empty_world))
     = [Access (join (abs_path ''/srv'') ''output''), Mkdir (join (abs_path ''/srv'') ''output''),
        Access (join (join (abs_path ''/srv'') ''output'') ''a.jpg'')]
   \<and> map fst (entries (fs empty_world)) = []
   \<and> map fst (entries (fs (snd (get_street_view example_env (Some malformed_lat_lng_request) empty_world))))
     = [join (abs_path ''/srv'') ''output'']"
  by (simp add: malformed_lat_lng_request_def get_street_view_def schema_defs street_view_body_def
      street_view_params_def io_defs set_location_def parseLatLng_def parseFloat_def
      parse_unsigned_def trim_def is_space_def is_digit_def example_defs Let_def)

text \<open>
  Claim C7, amended. An error of a schema is returned with the world as it was, for each
  of the three tools that parse arguments. A \<^verbatim>\<open>lat_lng\<close> that \<^verbatim>\<open>parseLatLng\<close>
  refuses is answered by \<^verbatim>\<open>get_metadata\<close> with the world as it was, and by
  \<^verbatim>\<open>get_street_view\<close> with an error and without any request sent.
\<close>

theorem validation_before_io:
  "(\<forall>err. GetStreetViewSchema args = Inl err \<longrightarrow>
       get_street_view e args w = (ToolError err, w) \<and> kind_of err = ValidationError)
   \<and> (\<forall>err. GetMetadataSchema args = Inl err \<longrightarrow>
       get_metadata e args w = (ToolError err, w) \<and> kind_of err = ValidationError)
   \<and> (\<forall>err. CreateHtmlPageSchema args = Inl err \<longrightarrow>
       create_html_page e args w = (ToolError err, w) \<and> kind_of err = ValidationError)
   \<and> (\<forall>v s err. GetMetadataSchema args = Inr v \<and> lat_lng v = Some s \<and> s \<noteq> []
         \<and> parseLatLng s = Inl err \<longrightarrow>
       get_metadata e args w = (HandlerError ''Metadata fetch failed: '' err, w)
       \<and> kind_of err = ValidationError)
   \<and> (\<forall>v s err. GetStreetViewSchema args = Inr v \<and> lat_lng v = Some s \<and> s \<noteq> []
         \<and> parseLatLng s = Inl err \<longrightarrow>
       result_error (fst (get_street_view e args w)) \<noteq> None
       \<and> sent (events w (snd (get_street_view e args w))) = [])"
proof (intro conjI allI impI)
  fix err assume "GetStreetViewSchema args = Inl err"
  then show "get_street_view e args w = (ToolError err, w)" "kind_of err = ValidationError"
    by (auto simp: get_street_view_def dest: schema_errors)
next
  fix err assume "GetMetadataSchema args = Inl err"
  then show "get_metadata e args w = (ToolError err, w)" "kind_of err = ValidationError"
    by (auto simp: get_metadata_def dest: schema_errors)
next
  fix err assume "CreateHtmlPageSchema args = Inl err"
  then show "create_html_page e args w = (ToolError err, w)" "kind_of err = ValidationError"
    by (auto simp: create_html_page_def dest: schema_errors)
next
  fix v s err
  assume a: "GetMetadataSchema args = Inr v \<and> lat_lng v = Some s \<and> s \<noteq> [] \<and> parseLatLng s = Inl err"
  then have "set_location v (metadata_params v) = Inl err"
    by (auto intro: set_location_lat_lng dest: GetMetadataSchema_Inr)
  then have "metadata_body e v = io_throw err"
    by (simp add: metadata_body_def)
  with a show "get_metadata e args w = (HandlerError ''Metadata fetch failed: '' err, w)"
    by (simp add: get_metadata_def finish_def io_throw_def)
  from a show "kind_of err = ValidationError"
    by (auto dest: parseLatLng_error)
next
  fix v s err
  assume a: "GetStreetViewSchema args = Inr v \<and> lat_lng v = Some s \<and> s \<noteq> [] \<and> parseLatLng s = Inl err"
  then have loc: "set_location v (street_view_params v) = Inl err"
    by (auto intro: set_location_lat_lng dest: GetStreetViewSchema_Inr)
  have "requests_of e (set_location v (street_view_params v)) (fst (street_view_body e v w))
          (sent (events w (snd (street_view_body e v w))))"
    using street_view_body_requests by (rule yields_events)
  then have *: "sent (events w (snd (street_view_body e v w))) = []" "isl (fst (street_view_body e v w))"
    by (simp_all add: loc requests_of_def)
  from a *(2) show "result_error (fst (get_street_view e args w)) \<noteq> None"
    by (auto simp: get_street_view_def finish_fst split: sum.splits)
  from a *(1) show "sent (events w (snd (get_street_view e args w))) = []"
    by (simp add: get_street_view_def)
qed

theorem validation_before_io_witness:
  "get_metadata example_env (Some [''lat_lng'' \<mapsto> JStr ''abc'']) empty_world
     = (HandlerError ''Metadata fetch failed: '' InvalidLatLng, empty_world)
   \<and> sent (events empty_world
        (snd (get_street_view example_env (Some malformed_lat_lng_request) empty_world))) = []
   \<and> create_html_page example_env (Some [''filename'' \<mapsto> JStr ''tour'', ''html_elements'' \<mapsto> JArr []])
        empty_world = (ToolError ZodError, empty_world)"
proof (intro conjI)
  have bad: "parseLatLng ''abc'' = Inl InvalidLatLng"
    by (simp add: parseLatLng_def parseFloat_def parse_unsigned_def trim_def is_space_def is_digit_def)
  have m: "GetMetadataSchema (Some [''lat_lng'' \<mapsto> JStr ''abc''])
     = Inr \<lparr> location = None, lat_lng = Some ''abc'', pano_id = None, radius = Finite 50,
             source = ''default'' \<rparr>"
    by (simp add: schema_defs)
  from validation_before_io [of "Some [''lat_lng'' \<mapsto> JStr ''abc'']" example_env empty_world] m bad
  show "get_metadata example_env (Some [''lat_lng'' \<mapsto> JStr ''abc'']) empty_world
     = (HandlerError ''Metadata fetch failed: '' InvalidLatLng, empty_world)"
    by simp
  have s: "GetStreetViewSchema (Some malformed_lat_lng_request)
     = Inr \<lparr> location = None, lat_lng = Some ''abc'', pano_id = None, radius = Finite 50,
             source = ''default'', filename = ''a.jpg'', size_str = ''600x400'',
             heading = Finite 0, pitch = Finite 0, fov = Finite 90 \<rparr>"
    by (simp add: malformed_lat_lng_request_def schema_defs)
  from validation_before_io [of "Some malformed_lat_lng_request" example_env empty_world] s bad
  show "sent (events empty_world
        (snd (get_street_view example_env (Some malformed_lat_lng_request) empty_world))) = []"
    by simp
  have h: "CreateHtmlPageSchema (Some [''filename'' \<mapsto> JStr ''tour'', ''html_elements'' \<mapsto> JArr []])
     = Inl ZodError"
    by (simp add: schema_defs)
  from validation_before_io
    [of "Some [''filename'' \<mapsto> JStr ''tour'', ''html_elements'' \<mapsto> JArr []]" example_env empty_world] h
  show "create_html_page example_env (Some [''filename'' \<mapsto> JStr ''tour'', ''html_elements'' \<mapsto> JArr []])
        empty_world = (ToolError ZodError, empty_world)"
    by simp
qed

section \<open>Files are written once\<close>

lemma join_neq [simp]: "join d name \<noteq> d"
  by (induction d) auto

lemma quiet_request_free: "sent a = [] \<Longrightarrow> ev \<in> set a \<Longrightarrow> request_of ev = None"
  by (induction a) (auto simp: sent_def List.map_filter_simps split: option.splits)

lemma takeWhile_quiet:
  "sent a = [] \<Longrightarrow> takeWhile (\<lambda>ev. request_of ev = None) (a @ b)
     = a @ takeWhile (\<lambda>ev. request_of ev = None) b"
  by (simp add: takeWhile_append2 quiet_request_free)

lemma checked_append:
  "sent a = [] \<Longrightarrow> checked_before_request p b \<Longrightarrow> checked_before_request p (a @ b)"
  by (auto simp: checked_before_request_def takeWhile_quiet)

lemma extends_quiet: "quiet m \<Longrightarrow> extends m"
  unfolding quiet_def extends_def by (erule yields_weaken) simp

lemma extends_bind: "extends m \<Longrightarrow> (\<And>x. extends (f x)) \<Longrightarrow> extends (io_bind m f)"
  unfolding extends_def by (erule yields_bind) auto

lemma extends_makeApiRequest: "extends (makeApiRequest e url ps)"
  unfolding extends_def by (rule yields_weaken [OF yields_makeApiRequest]) simp

lemma yields_ensure_absent:
  "yields (ensure_absent p err) (\<lambda>r evs. evs = [Access p])"
  unfolding ensure_absent_def
  apply (rule yields_catch [where P = "\<lambda>r evs. evs = [Access p]" and Q = "\<lambda>err r evs. evs = []"])
     apply (rule yields_bind [where P = "\<lambda>r evs. evs = [Access p]" and Q = "\<lambda>x r evs. evs = []"])
        apply (rule yields_access)
       apply (rule yields_throw, simp)
      apply simp
     apply simp
    apply (simp add: yields_throw yields_return)
   apply simp
  apply simp
  done

lemma street_view_body_checked:
  "yields (street_view_body e v)
     (\<lambda>r evs. checked_before_request (join (OUTPUT_DIR e) (filename v)) evs)"
  unfolding street_view_body_def Let_def
  apply (rule yields_bind [where P = "\<lambda>r evs. sent evs = []"
        and Q = "\<lambda>x r evs. checked_before_request (join (OUTPUT_DIR e) (filename v)) evs"])
     apply (rule quiet_ensureDirectoryExists [unfolded quiet_def])
    apply (rule yields_bind [where P = "\<lambda>r evs. evs = [Access (join (OUTPUT_DIR e) (filename v))]"
        and Q = "\<lambda>x r evs. True"])
       apply (rule yields_ensure_absent)
      apply (fold extends_def)
      apply (intro extends_bind extends_makeApiRequest extends_quiet quiet_intros)
     apply (simp add: checked_before_request_def)
    apply (simp add: checked_before_request_def)
   apply (simp add: checked_before_request_def)
  apply (simp add: checked_append)
  done

lemma preserves_bind:
  assumes "preserves_when P m" and "\<And>x. preserves_when P (f x)"
  shows "preserves_when P (io_bind m f)"
  unfolding preserves_when_def
proof (intro allI impI)
  fix w :: world assume p: "P (fs w)"
  with assms(1) have m: "fs (snd (m w)) = fs w"
    by (simp add: preserves_when_def)
  show "fs (snd (io_bind m f w)) = fs w"
  proof (cases "m w")
    case (Pair r w1)
    with m p assms(2) show ?thesis
      by (cases r) (auto simp: io_bind_def preserves_when_def)
  qed
qed

lemma preserves_catch:
  assumes "preserves_when P m" and "\<And>err. preserves_when P (h err)"
  shows "preserves_when P (io_catch m h)"
  unfolding preserves_when_def
proof (intro allI impI)
  fix w :: world assume p: "P (fs w)"
  with assms(1) have m: "fs (snd (m w)) = fs w"
    by (simp add: preserves_when_def)
  show "fs (snd (io_catch m h w)) = fs w"
  proof (cases "m w")
    case (Pair r w1)
    with m p assms(2) show ?thesis
      by (cases r) (auto simp: io_catch_def preserves_when_def)
  qed
qed

lemma preserves_basic:
  "preserves_when P (io_return x)" "preserves_when P (io_throw err)" "preserves_when P (io_lift r)"
  "preserves_when P (access p)" "preserves_when P (stat p)" "preserves_when P (readdir p)"
  "preserves_when P (sharp_read_metadata e p)"
  "preserves_when P (makeApiRequest e url ps)"
  by (auto simp: preserves_when_def io_return_def io_throw_def io_lift_def access_def stat_def
      readdir_def sharp_read_metadata_def makeApiRequest_def emit_def Let_def
      split: option.splits sum.splits axios_result.splits)

lemma preserves_writeFile:
  "preserves_when (\<lambda>fsys. faulty fsys p \<noteq> None) (writeFile p data)"
  by (auto simp: preserves_when_def writeFile_def fs_writeFile_def emit_def split: option.splits)

lemma preserves_sharp_toFile:
  "preserves_when (\<lambda>fsys. faulty fsys p \<noteq> None) (sharp_toFile e buffer p)"
  unfolding sharp_toFile_def
  by (cases "sharp_jpeg e buffer")
     (auto simp del: not_None_eq intro: preserves_basic preserves_writeFile)

lemma preserves_if: "preserves_when P a \<Longrightarrow> preserves_when P b \<Longrightarrow> preserves_when P (if c then a else b)"
  by simp

lemmas preserves_intros = preserves_bind preserves_catch preserves_if preserves_basic
  preserves_sharp_toFile

lemma preserves_ensure_absent: "preserves_when P (ensure_absent p err)"
  unfolding ensure_absent_def by (intro preserves_intros)

lemma ensure_absent_passes:
  assumes "ensure_absent p (FileExists name) w = (Inr u, w')"
  shows "fs_access (fs w) p = Some ENOENT"
  using assms
  by (cases "fs_access (fs w) p")
     (auto simp: ensure_absent_def io_catch_def io_bind_def access_def io_throw_def io_return_def
        split: if_splits)

lemma ensureDirectoryExists_keeps:
  assumes "map_of (entries (fs w)) p = Some n"
  shows "map_of (entries (fs (snd (ensureDirectoryExists dir w)))) p = Some n
       \<and> faulty (fs (snd (ensureDirectoryExists dir w))) = faulty (fs w)"
  using assms
  by (auto simp: io_defs map_add_def split: option.splits sum.splits if_splits)

lemma street_view_body_keeps:
  assumes "map_of (entries (fs w)) (join (OUTPUT_DIR e) (filename v)) = Some n"
  shows "map_of (entries (fs (snd (street_view_body e v w)))) (join (OUTPUT_DIR e) (filename v)) = Some n"
proof -
  let ?t = "join (OUTPUT_DIR e) (filename v)"
  define rest where "rest = (\<lambda>u :: unit.
     io_bind (io_lift (set_location v (street_view_params v))) (\<lambda>ps.
     io_bind (makeApiRequest e BASE_URL ps) (\<lambda>imageBuffer.
     io_bind (sharp_toFile e imageBuffer ?t) (\<lambda>_.
     io_bind (sharp_read_metadata e ?t) (\<lambda>metadata.
     io_bind (stat ?t) (\<lambda>st.
     io_return (StreetViewSaved (filename v) ?t metadata (kilobytes (st_size st))
       ([''size'' \<mapsto> PStr (size_str v), ''heading'' \<mapsto> PNum (heading v),
         ''pitch'' \<mapsto> PNum (pitch v), ''fov'' \<mapsto> PNum (fov v),
         ''source'' \<mapsto> PStr (source v)]
         (''location'' := map_option PStr (or_else (location v) (or_else (lat_lng v) (pano_id v))),
          ''radius'' := (if Boolean (pano_id v) then None else Some (PNum (radius v))))))))))))"
  have body: "street_view_body e v =
     io_bind (ensureDirectoryExists (OUTPUT_DIR e)) (\<lambda>_. io_bind (ensure_absent ?t (FileExists (filename v))) rest)"
    by (simp add: street_view_body_def rest_def Let_def)
  have rest: "preserves_when (\<lambda>fsys. faulty fsys ?t \<noteq> None) (rest u)" for u
    unfolding rest_def by (intro preserves_intros)
  obtain r1 w1 where w1: "ensureDirectoryExists (OUTPUT_DIR e) w = (r1, w1)"
    by (cases "ensureDirectoryExists (OUTPUT_DIR e) w")
  with ensureDirectoryExists_keeps [OF assms, of "OUTPUT_DIR e"]
  have k1: "map_of (entries (fs w1)) ?t = Some n"
    by simp
  obtain r2 w2 where w2: "ensure_absent ?t (FileExists (filename v)) w1 = (r2, w2)"
    by (cases "ensure_absent ?t (FileExists (filename v)) w1")
  have "fs w2 = fs w1"
    using preserves_ensure_absent [where P = "\<lambda>_. True", unfolded preserves_when_def] w2
    by (metis snd_conv)
  with k1 have k2: "map_of (entries (fs w2)) ?t = Some n"
    by simp
  show ?thesis
  proof (cases r1)
    case (Inl err)
    with w1 k1 show ?thesis
      by (simp add: body io_bind_def)
  next
    case (Inr u1)
    show ?thesis
    proof (cases r2)
      case (Inl err)
      with w1 w2 k2 \<open>r1 = Inr u1\<close> show ?thesis
        by (simp add: body io_bind_def)
    next
      case (Inr u2)
      with w2 have "fs_access (fs w1) ?t = Some ENOENT"
        by (auto dest: ensure_absent_passes)
      with k1 have "faulty (fs w1) ?t \<noteq> None"
        by (auto simp: fs_access_def split: option.splits)
      with \<open>fs w2 = fs w1\<close> rest [of u2] have "fs (snd (rest u2 w2)) = fs w2"
        by (simp add: preserves_when_def)
      with w1 w2 k2 \<open>r1 = Inr u1\<close> Inr show ?thesis
        by (simp add: body io_bind_def)
    qed
  qed
qed

text \<open>
  Claim C2. When the arguments of \<^verbatim>\<open>get_street_view\<close> pass the schema and the target
  path holds a file in an output directory that is there, the call ends with the
  file-exists error after two accesses, the directory and the target: the disk is as it
  was, so the bytes of the file are, and no request is sent. And in every call, from any
  world, the access to the target comes before the first request, and an entry that was
  at the target path before the call is the same entry after it.
\<close>

theorem existing_file_is_kept:
  assumes "GetStreetViewSchema args = Inr v"
    and "target = join (OUTPUT_DIR e) (filename v)"
    and "map_of (entries (fs w)) (OUTPUT_DIR e) = Some d"
    and "faulty (fs w) (OUTPUT_DIR e) = None"
    and "map_of (entries (fs w)) target = Some n"
    and "faulty (fs w) target = None"
  shows "get_street_view e args w =
           (HandlerError ''Street View image fetch failed: '' (FileExists (filename v)),
            w\<lparr>trace := trace w @ [Access (OUTPUT_DIR e), Access target]\<rparr>)
         \<and> kind_of (FileExists (filename v)) = ConflictError
         \<and> fs (snd (get_street_view e args w)) = fs w
         \<and> sent (events w (snd (get_street_view e args w))) = []
         \<and> (\<forall>w0. checked_before_request target (events w0 (snd (get_street_view e args w0))))
         \<and> (\<forall>(w0 :: world) n0. map_of (entries (fs w0)) target = Some n0 \<longrightarrow>
               map_of (entries (fs (snd (get_street_view e args w0)))) target = Some n0)"
proof (intro conjI allI impI)
  show r: "get_street_view e args w =
           (HandlerError ''Street View image fetch failed: '' (FileExists (filename v)),
            w\<lparr>trace := trace w @ [Access (OUTPUT_DIR e), Access target]\<rparr>)"
    using assms
    by (simp add: get_street_view_def street_view_body_def io_defs Let_def)
  show "kind_of (FileExists (filename v)) = ConflictError"
    by simp
  show "fs (snd (get_street_view e args w)) = fs w"
    by (simp add: r)
  show "sent (events w (snd (get_street_view e args w))) = []"
    by (simp add: r events_def)
  fix w0
  have "checked_before_request target (events w0 (snd (street_view_body e v w0)))"
    unfolding assms(2) using street_view_body_checked by (rule yields_events)
  then show "checked_before_request target (events w0 (snd (get_street_view e args w0)))"
    using assms(1) by (simp add: get_street_view_def)
next
  fix w0 :: world and n0
  assume "map_of (entries (fs w0)) target = Some n0"
  then have "map_of (entries (fs (snd (street_view_body e v w0)))) target = Some n0"
    unfolding assms(2) by (rule street_view_body_keeps)
  then show "map_of (entries (fs (snd (get_street_view e args w0)))) target = Some n0"
    using assms(1) by (simp add: get_street_view_def)
qed

theorem existing_file_is_kept_witness:
  "get_street_view example_env (Some address_request) occupied_world =
     (HandlerError ''Street View image fetch failed: '' (FileExists ''a.jpg''),
      occupied_world\<lparr>trace := [Access (join (abs_path ''/srv'') ''output''),
         Access (join (join (abs_path ''/srv'') ''output'') ''a.jpg'')]\<rparr>)"
proof -
  have v: "GetStreetViewSchema (Some address_request)
     = Inr \<lparr> location = Some ''Rome'', lat_lng = None, pano_id = None, radius = Finite 50,
             source = ''default'', filename = ''a.jpg'', size_str = ''600x400'',
             heading = Finite 0, pitch = Finite 0, fov = Finite 90 \<rparr>"
    by (simp add: address_request_def schema_defs)
  have "get_street_view example_env (Some address_request) occupied_world =
     (HandlerError ''Street View image fetch failed: '' (FileExists ''a.jpg''),
      occupied_world\<lparr>trace := trace occupied_world @ [Access (OUTPUT_DIR example_env),
         Access (join (OUTPUT_DIR example_env) ''a.jpg'')]\<rparr>)"
    using existing_file_is_kept [where e = example_env and w = occupied_world, OF v refl, THEN conjunct1]
    by (simp add: occupied_world_def example_defs)
  then show ?thesis
    by (simp add: occupied_world_def example_defs)
qed


lemma endsWith_suffix: "endsWith s t \<longleftrightarrow> suffix t s"
proof
  assume "endsWith s t"
  then have "s = take (length s - length t) s @ t"
    by (metis append_take_drop_id endsWith_def)
  then show "suffix t s"
    by (metis suffixI)
next
  assume "suffix t s"
  then obtain p where "s = p @ t" by (auto simp: suffix_def)
  then show "endsWith s t"
    by (simp add: endsWith_def)
qed

lemma toLowerCase_length: "length (toLowerCase s) = length s"
  by (simp add: toLowerCase_def)

lemma html_page_success:
  assumes "html_page_body e v w = (Inr p, w')"
  shows "p = HtmlPageCreated (htmlFilename (html_filename v))
           (join (HTML_DIR e) (htmlFilename (html_filename v))) (title v) (length (html_elements v))"
  using assms
  by (auto simp: html_page_body_def io_bind_def io_return_def Let_def split: prod.splits sum.splits)

text \<open>
  Claim C10. The name of the page is the given name when it ends in \<^verbatim>\<open>.html\<close>,
  compared character by character, and the given name followed by \<^verbatim>\<open>.html\<close>
  otherwise: so also for a name that ends in \<^verbatim>\<open>.HTML\<close> or in another variant of
  case. A page that is created has that name, in the page directory.
\<close>

theorem html_extension_is_case_sensitive:
  "htmlFilename name = (if suffix ''.html'' name then name else name @ ''.html'')
   \<and> (toLowerCase ext = ''.html'' \<and> ext \<noteq> ''.html'' \<longrightarrow>
        htmlFilename (base @ ext) = base @ ext @ ''.html'')
   \<and> htmlFilename ''foo.html'' = ''foo.html''
   \<and> htmlFilename ''foo.HTML'' = ''foo.HTML.html''
   \<and> (\<forall>v p w'. CreateHtmlPageSchema args = Inr v \<and> create_html_page e args w = (ToolSuccess p, w') \<longrightarrow>
        p = HtmlPageCreated (htmlFilename (html_filename v))
              (join (HTML_DIR e) (htmlFilename (html_filename v))) (title v) (length (html_elements v)))"
proof (intro conjI allI impI)
  show "htmlFilename name = (if suffix ''.html'' name then name else name @ ''.html'')"
    by (simp add: htmlFilename_def endsWith_suffix)
  show "htmlFilename ''foo.html'' = ''foo.html''" "htmlFilename ''foo.HTML'' = ''foo.HTML.html''"
    by (simp_all add: htmlFilename_def endsWith_def)
next
  assume a: "toLowerCase ext = ''.html'' \<and> ext \<noteq> ''.html''"
  then have "length ext = 5"
    using toLowerCase_length [of ext] by simp
  with a have "\<not> endsWith (base @ ext) ''.html''"
    by (simp add: endsWith_def)
  then show "htmlFilename (base @ ext) = base @ ext @ ''.html''"
    by (simp add: htmlFilename_def)
next
  fix v p w'
  assume a: "CreateHtmlPageSchema args = Inr v \<and> create_html_page e args w = (ToolSuccess p, w')"
  then have "html_page_body e v w = (Inr p, w')"
    by (auto simp: create_html_page_def finish_def split: prod.splits sum.splits)
  then show "p = HtmlPageCreated (htmlFilename (html_filename v))
              (join (HTML_DIR e) (htmlFilename (html_filename v))) (title v) (length (html_elements v))"
    by (rule html_page_success)
qed

theorem html_extension_is_case_sensitive_witness:
  "htmlFilename ''tour.Html'' = ''tour.Html.html''"
proof -
  have "toLowerCase ''.Html'' = ''.html'' \<and> ''.Html'' \<noteq> ''.html''"
    by (simp add: toLowerCase_def to_lower_def)
  with html_extension_is_case_sensitive [of _ "''.Html''" "''tour''", THEN conjunct2, THEN conjunct1]
  show ?thesis by simp
qed


lemma nested_tour_request_parsed:
  "CreateHtmlPageSchema (Some nested_tour_request)
     = Inr \<lparr> html_filename = ''sub/tour'', title = ''Street View Tour'',
             html_elements = [''<h1>Rome</h1>''] \<rparr>"
  by (simp add: nested_tour_request_def schema_defs)

lemma nested_tour_first:
  "create_html_page example_env (Some nested_tour_request) empty_world
     = (HandlerError ''HTML page creation failed: '' (SystemError ENOENT),
        empty_world\<lparr>
          fs := \<lparr> entries = [(join (abs_path ''/srv'') ''html'',
                     \<lparr>isDirectory = True, content = [], created_at = 1730641112345,
                        modified_at = 1730641112345\<rparr>)],
                  faulty = (\<lambda>p. None) \<rparr>,
          trace := [Access (join (abs_path ''/srv'') ''html''),
                    Mkdir (join (abs_path ''/srv'') ''html''),
                    Access (join (join (abs_path ''/srv'') ''html'') ''sub/tour.html''),
                    WriteFile (join (join (abs_path ''/srv'') ''html'') ''sub/tour.html'')]\<rparr>)"
  by (simp add: create_html_page_def nested_tour_request_parsed html_page_body_def htmlFilename_def
      endsWith_def io_defs example_defs before_last_separator_def Let_def)

text \<open>
  Against claim C5 as it is stated. The arguments \<^verbatim>\<open>{filename: "sub/tour",
  html_elements: ["<h1>Rome</h1>"]}\<close> pass the schema and, on an empty disk, no file is
  at the target path \<^verbatim>\<open>html/sub/tour.html\<close>. The first call creates \<^verbatim>\<open>html\<close>, finds
  the target free and fails in \<^verbatim>\<open>writeFile\<close> with \<^verbatim>\<open>ENOENT\<close>, since nothing creates
  \<^verbatim>\<open>html/sub\<close>; the second call fails in the same way, not with the file-exists error;
  and no file is at the target path afterwards.
\<close>

theorem page_below_missing_directory:
  "CreateHtmlPageSchema (Some nested_tour_request)
     = Inr \<lparr> html_filename = ''sub/tour'', title = ''Street View Tour'',
             html_elements = [''<h1>Rome</h1>''] \<rparr>
   \<and> map_of (entries (fs empty_world)) (join (HTML_DIR example_env) ''sub/tour.html'') = None
   \<and> fst (create_html_page example_env (Some nested_tour_request) empty_world)
       = HandlerError ''HTML page creation failed: '' (SystemError ENOENT)
   \<and> events empty_world (snd (create_html_page example_env (Some nested_tour_request) empty_world))
       = [Access (HTML_DIR example_env), Mkdir (HTML_DIR example_env),
          Access (join (HTML_DIR example_env) ''sub/tour.html''),
          WriteFile (join (HTML_DIR example_env) ''sub/tour.html'')]
   \<and> fst (create_html_page example_env (Some nested_tour_request)
        (snd (create_html_page example_env (Some nested_tour_request) empty_world)))
       = HandlerError ''HTML page creation failed: '' (SystemError ENOENT)
   \<and> kind_of (SystemError ENOENT) = FilesystemError
   \<and> map_of (entries (fs (snd (create_html_page example_env (Some nested_tour_request)
        (snd (create_html_page example_env (Some nested_tour_request) empty_world))))))
        (join (HTML_DIR example_env) ''sub/tour.html'') = None"
  unfolding nested_tour_first
  by (simp add: create_html_page_def nested_tour_request_parsed html_page_body_def htmlFilename_def
      endsWith_def io_defs example_defs before_last_separator_def events_def Let_def)



section \<open>The listing\<close>









lemma child_name_self [simp]: "child_name dir dir = None"
  by (cases dir) (simp_all add: join_neq [symmetric])











end
